theory Spec2Isabelle
  imports Complex_Main
begin

section \<open>Python values\<close>

text \<open>
  The program (\<^verbatim>\<open>src/main.py\<close>) handles the marketplace's records as Python
  dictionaries decoded from JSON (\<^verbatim>\<open>Dict[str, Any]\<close>).  A value of type \<^verbatim>\<open>Any\<close>
  is a \<open>json\<close>; a dictionary is an association list read with \<open>map_of\<close>.

  Numbers: a Python \<^verbatim>\<open>int\<close> is an \<open>int\<close>.  A Python \<^verbatim>\<open>float\<close> is modelled by
  the exact real number it stands for, and \<^verbatim>\<open>round(x, 2)\<close> by rounding to the
  nearest hundredth, ties to the even neighbour (\<open>round2\<close>).  The binary
  representation error of IEEE doubles, infinities and NaN are outside this model.
\<close>

datatype json =
    JNull
  | JBool bool
  | JInt int
  | JFloat real
  | JStr string
  | JList "json list"
  | JObj "(string \<times> json) list"

type_synonym jdict = "(string \<times> json) list"

text \<open>
  Exceptions are values.  The built-in ones are named by their class;
  \<open>RemoteError\<close> is any exception raised by one of the HTTP clients
  (\<^verbatim>\<open>requests\<close> errors, \<^verbatim>\<open>raise_for_status\<close>, a malformed response body);
  \<open>HTTPException\<close> is the rejection of a request by a route, with its status code.
\<close>

datatype exn =
    ValueError
  | TypeError
  | AttributeError
  | KeyError
  | OverflowError
  | InterfaceError
  | HTTPException nat
  | RemoteError string

text \<open>
  What the interpreter and the process environment supply: the module constant
  \<^verbatim>\<open>DEFAULT_CURRENCY\<close> (read from the environment at start-up), \<^verbatim>\<open>str(x)\<close> for
  floats, lists and dictionaries, and \<^verbatim>\<open>str(e)\<close> for an exception.
\<close>

record host =
  DEFAULT_CURRENCY :: string
  py_repr :: "json \<Rightarrow> string"
  exc_text :: "exn \<Rightarrow> string"

fun truthy :: "json \<Rightarrow> bool" where
  "truthy JNull = False"
| "truthy (JBool b) = b"
| "truthy (JInt i) = (i \<noteq> 0)"
| "truthy (JFloat q) = (q \<noteq> 0)"
| "truthy (JStr s) = (s \<noteq> [])"
| "truthy (JList xs) = (xs \<noteq> [])"
| "truthy (JObj d) = (d \<noteq> [])"

definition py_or :: "json \<Rightarrow> json \<Rightarrow> json" where
  \<comment> \<open>\<^verbatim>\<open>a or b\<close>\<close>
  "py_or a b = (if truthy a then a else b)"

definition dict_get :: "jdict \<Rightarrow> string \<Rightarrow> json" where
  \<comment> \<open>\<^verbatim>\<open>d.get(k)\<close>\<close>
  "dict_get d k = (case map_of d k of None \<Rightarrow> JNull | Some v \<Rightarrow> v)"

definition dict_get_default :: "jdict \<Rightarrow> string \<Rightarrow> json \<Rightarrow> json" where
  \<comment> \<open>\<^verbatim>\<open>d.get(k, dflt)\<close>\<close>
  "dict_get_default d k dflt = (case map_of d k of None \<Rightarrow> dflt | Some v \<Rightarrow> v)"

definition attr_get :: "json \<Rightarrow> string \<Rightarrow> exn + json" where
  \<comment> \<open>\<^verbatim>\<open>x.get(k)\<close> on a value of type \<^verbatim>\<open>Any\<close>: only a dictionary has \<^verbatim>\<open>get\<close>\<close>
  "attr_get x k = (case x of JObj d \<Rightarrow> Inr (dict_get d k) | _ \<Rightarrow> Inl AttributeError)"

subsection \<open>Strings\<close>

text \<open>
  Characters are bytes; the string functions are those of Python on ASCII text.
\<close>

definition is_space :: "char \<Rightarrow> bool" where
  "is_space c = ((of_char c :: nat) \<in> {9, 10, 11, 12, 13, 28, 29, 30, 31, 32})"

definition strip :: "string \<Rightarrow> string" where
  "strip s = rev (dropWhile is_space (rev (dropWhile is_space s)))"

definition upper_char :: "char \<Rightarrow> char" where
  "upper_char c =
     (case map_of (zip ''abcdefghijklmnopqrstuvwxyz'' ''ABCDEFGHIJKLMNOPQRSTUVWXYZ'') c of
        None \<Rightarrow> c
      | Some u \<Rightarrow> u)"

definition lower_char :: "char \<Rightarrow> char" where
  "lower_char c =
     (case map_of (zip ''ABCDEFGHIJKLMNOPQRSTUVWXYZ'' ''abcdefghijklmnopqrstuvwxyz'') c of
        None \<Rightarrow> c
      | Some l \<Rightarrow> l)"

definition upper :: "string \<Rightarrow> string" where
  "upper s = map upper_char s"

definition lower :: "string \<Rightarrow> string" where
  "lower s = map lower_char s"

definition str_strip :: "json \<Rightarrow> exn + string" where
  \<comment> \<open>\<^verbatim>\<open>x.strip()\<close>\<close>
  "str_strip x = (case x of JStr s \<Rightarrow> Inr (strip s) | _ \<Rightarrow> Inl AttributeError)"

definition str_upper :: "json \<Rightarrow> exn + string" where
  \<comment> \<open>\<^verbatim>\<open>x.upper()\<close>\<close>
  "str_upper x = (case x of JStr s \<Rightarrow> Inr (upper s) | _ \<Rightarrow> Inl AttributeError)"

definition slice_to :: "nat \<Rightarrow> json \<Rightarrow> exn + json" where
  \<comment> \<open>\<^verbatim>\<open>x[:n]\<close>: strings and lists can be sliced, nothing else\<close>
  "slice_to n x = (case x of JStr s \<Rightarrow> Inr (JStr (take n s))
                    | JList xs \<Rightarrow> Inr (JList (take n xs))
                    | _ \<Rightarrow> Inl TypeError)"

subsection \<open>Decimal text\<close>

definition digit_of :: "char \<Rightarrow> nat option" where
  "digit_of c = (let n = (of_char c :: nat) in if 48 \<le> n \<and> n \<le> 57 then Some (n - 48) else None)"

fun digits_acc :: "nat \<Rightarrow> string \<Rightarrow> nat option" where
  "digits_acc a [] = Some a"
| "digits_acc a (c # cs) = (case digit_of c of None \<Rightarrow> None | Some d \<Rightarrow> digits_acc (10 * a + d) cs)"

definition digits_value :: "string \<Rightarrow> nat option" where
  "digits_value s = (if s = [] then None else digits_acc 0 s)"

definition int_of_str :: "string \<Rightarrow> int option" where
  \<comment> \<open>\<^verbatim>\<open>int(s)\<close> for a string: blanks around, an optional sign, decimal digits.
      Digit-group underscores are not read.\<close>
  "int_of_str s =
     (case strip s of
        [] \<Rightarrow> None
      | c # cs \<Rightarrow>
          if c = CHR ''-'' then map_option (\<lambda>n. - int n) (digits_value cs)
          else if c = CHR ''+'' then map_option int (digits_value cs)
          else map_option int (digits_value (c # cs)))"

definition unsigned_decimal :: "string \<Rightarrow> real option" where
  "unsigned_decimal body =
     (let ip = takeWhile (\<lambda>c. c \<noteq> CHR ''.'') body;
          rest = dropWhile (\<lambda>c. c \<noteq> CHR ''.'') body
      in case rest of
           [] \<Rightarrow> map_option of_nat (digits_value ip)
         | _ # fp \<Rightarrow>
             if ip = [] \<and> fp = [] then None
             else (case (if ip = [] then Some 0 else digits_value ip,
                         if fp = [] then Some 0 else digits_value fp) of
                     (Some a, Some b) \<Rightarrow> Some (of_nat a + of_nat b / 10 ^ length fp)
                   | _ \<Rightarrow> None))"

definition float_of_str :: "string \<Rightarrow> real option" where
  \<comment> \<open>\<^verbatim>\<open>float(s)\<close> for a string: blanks around, an optional sign, a decimal numeral
      with an optional fraction.  Exponents, \<^verbatim>\<open>inf\<close>, \<^verbatim>\<open>nan\<close> and underscores
      are not read.\<close>
  "float_of_str s =
     (case strip s of
        [] \<Rightarrow> None
      | c # cs \<Rightarrow>
          if c = CHR ''-'' then map_option uminus (unsigned_decimal cs)
          else if c = CHR ''+'' then unsigned_decimal cs
          else unsigned_decimal (c # cs))"

definition digit_char :: "nat \<Rightarrow> char" where
  "digit_char n = ''0123456789'' ! n"

fun show_nat :: "nat \<Rightarrow> string" where
  "show_nat n = (if n < 10 then [digit_char n] else show_nat (n div 10) @ [digit_char (n mod 10)])"

declare show_nat.simps [simp del]

definition show_int :: "int \<Rightarrow> string" where
  \<comment> \<open>\<^verbatim>\<open>str(i)\<close> for an \<^verbatim>\<open>int\<close>\<close>
  "show_int i = (if i < 0 then CHR ''-'' # show_nat (nat (- i)) else show_nat (nat i))"

fun py_str :: "host \<Rightarrow> json \<Rightarrow> string" where
  "py_str h JNull = ''None''"
| "py_str h (JBool b) = (if b then ''True'' else ''False'')"
| "py_str h (JInt i) = show_int i"
| "py_str h (JStr s) = s"
| "py_str h (JFloat q) = py_repr h (JFloat q)"
| "py_str h (JList xs) = py_repr h (JList xs)"
| "py_str h (JObj d) = py_repr h (JObj d)"

subsection \<open>Numeric conversions\<close>

definition py_float :: "json \<Rightarrow> exn + real" where
  \<comment> \<open>\<^verbatim>\<open>float(x)\<close>\<close>
  "py_float x =
     (case x of
        JBool b \<Rightarrow> Inr (if b then 1 else 0)
      | JInt i \<Rightarrow> Inr (of_int i)
      | JFloat q \<Rightarrow> Inr q
      | JStr s \<Rightarrow> (case float_of_str s of None \<Rightarrow> Inl ValueError | Some q \<Rightarrow> Inr q)
      | _ \<Rightarrow> Inl TypeError)"

definition trunc :: "real \<Rightarrow> int" where
  "trunc q = (if 0 \<le> q then \<lfloor>q\<rfloor> else \<lceil>q\<rceil>)"

definition py_int :: "json \<Rightarrow> exn + int" where
  \<comment> \<open>\<^verbatim>\<open>int(x)\<close>\<close>
  "py_int x =
     (case x of
        JBool b \<Rightarrow> Inr (if b then 1 else 0)
      | JInt i \<Rightarrow> Inr i
      | JFloat q \<Rightarrow> Inr (trunc q)
      | JStr s \<Rightarrow> (case int_of_str s of None \<Rightarrow> Inl ValueError | Some i \<Rightarrow> Inr i)
      | _ \<Rightarrow> Inl TypeError)"

definition round_half_even :: "real \<Rightarrow> int" where
  "round_half_even x =
     (if x - of_int \<lfloor>x\<rfloor> < 1 / 2 then \<lfloor>x\<rfloor>
      else if 1 / 2 < x - of_int \<lfloor>x\<rfloor> then \<lfloor>x\<rfloor> + 1
      else if even \<lfloor>x\<rfloor> then \<lfloor>x\<rfloor>
      else \<lfloor>x\<rfloor> + 1)"

definition round2 :: "real \<Rightarrow> real" where
  \<comment> \<open>\<^verbatim>\<open>round(x, 2)\<close>\<close>
  "round2 x = of_int (round_half_even (x * 100)) / 100"

text \<open>
  A value with at most two fractional digits is one that \<open>round2\<close> leaves alone.
\<close>

definition hundredths :: "real \<Rightarrow> bool" where
  "hundredths x = (round2 x = x)"

section \<open>Utils\<close>

definition money_to_float :: "json \<Rightarrow> exn + real" where
  "money_to_float m =
     (case m of
        JNull \<Rightarrow> Inr 0
      | JBool b \<Rightarrow> Inr (if b then 1 else 0)
      | JInt i \<Rightarrow> Inr (of_int i)
      | JFloat q \<Rightarrow> Inr q
      | JObj d \<Rightarrow>
          (case py_float (dict_get_default d ''amount'' (JInt 0)) of
             Inl e \<Rightarrow> Inl e
           | Inr amount \<Rightarrow>
               (case py_float (dict_get_default d ''divisor'' (JInt 100)) of
                  Inl e \<Rightarrow> Inl e
                | Inr dv \<Rightarrow>
                    (let divisor = (if dv = 0 then 100 else dv)
                     in Inr (round2 (amount / divisor)))))
      | _ \<Rightarrow> Inl AttributeError)"

section \<open>Mapping\<close>

text \<open>
  The settings table as the program reads it (\<^verbatim>\<open>Dict[str, str]\<close>).
\<close>

type_synonym settings = "string \<rightharpoonup> string"

definition st_get_or :: "settings \<Rightarrow> string \<Rightarrow> string \<Rightarrow> string" where
  \<comment> \<open>\<^verbatim>\<open>st.get(k) or d\<close>\<close>
  "st_get_or st k d = (case st k of None \<Rightarrow> d | Some v \<Rightarrow> if v = [] then d else v)"

text \<open>
  The payload sent to the invoicing provider.  Its constant entries
  (\<^verbatim>\<open>RecipientType\<close>, \<^verbatim>\<open>ScenarioType\<close>, \<^verbatim>\<open>InvoiceType\<close>, the payment labels,
  \<^verbatim>\<open>SendMailAutomatically\<close>) are left out.  \<open>InvoiceInstant\<close> is the UTC instant
  \<^verbatim>\<open>dt\<close> of which \<^verbatim>\<open>InvoiceDate\<close>, \<^verbatim>\<open>InvoiceTime\<close>, \<^verbatim>\<open>OrderDate\<close>,
  \<^verbatim>\<open>PaymentDate\<close> and \<^verbatim>\<open>SendingDate\<close> are the \<^verbatim>\<open>strftime\<close> renderings.
\<close>

record line =
  ProductName :: json
  Quantity :: real
  UnitPrice :: real
  VatRate :: real
  VatAmount :: real
  LineExtensionAmount :: real

record address =
  BoulevardAveneuStreetName :: json
  TownName :: json
  CityName :: json
  PostalCode :: json
  CountryName :: json
  TelephoneNumber :: json
  EMail :: json

record payload =
  IdFaturaExternal :: string
  CompanyId :: real
  InvoiceInstant :: int
  OrderNumber :: string
  ReceiverName :: string
  Address :: address
  Products :: "line list"
  CurrencyCode :: json
  TotalLineExtensionAmount :: real
  TotalVATAmount :: real
  TotalTaxInclusiveAmount :: real
  TotalPayableAmount :: real
  WebAddress :: string

definition listed_currency :: "jdict \<Rightarrow> exn + json option" where
  \<comment> \<open>\<^verbatim>\<open>(r.get("grandtotal") or {}).get("currency_code") or
      (r.get("total_price") or {}).get("currency_code")\<close>, \<open>None\<close> when both are falsy\<close>
  "listed_currency r =
     (case attr_get (py_or (dict_get r ''grandtotal'') (JObj [])) ''currency_code'' of
        Inl e \<Rightarrow> Inl e
      | Inr c1 \<Rightarrow>
          if truthy c1 then Inr (Some c1)
          else (case attr_get (py_or (dict_get r ''total_price'') (JObj [])) ''currency_code'' of
                  Inl e \<Rightarrow> Inl e
                | Inr c2 \<Rightarrow> if truthy c2 then Inr (Some c2) else Inr None))"

definition build_address :: "jdict \<Rightarrow> exn + address" where
  "build_address receipt =
     (let email = py_or (dict_get receipt ''buyer_email'') (JStr []);
          phone = py_or (dict_get receipt ''phone'') (JStr [])
      in case slice_to 250 (py_or (dict_get receipt ''first_line'') (JStr [])) of
           Inl e \<Rightarrow> Inl e
         | Inr street \<Rightarrow>
        (case slice_to 60 (py_or (dict_get receipt ''city'') (JStr [])) of
           Inl e \<Rightarrow> Inl e
         | Inr town \<Rightarrow>
        (case slice_to 60 (py_or (py_or (dict_get receipt ''state'') (dict_get receipt ''city''))
                                 (JStr [])) of
           Inl e \<Rightarrow> Inl e
         | Inr city \<Rightarrow>
             Inr \<lparr> BoulevardAveneuStreetName = street,
                   TownName = town,
                   CityName = city,
                   PostalCode = py_or (dict_get receipt ''zip'') (JStr []),
                   CountryName = py_or (py_or (dict_get receipt ''country_name'')
                                              (dict_get receipt ''country_iso'')) (JStr []),
                   TelephoneNumber = phone,
                   EMail = email \<rparr>)))"

text \<open>
  One round of the loop over the line items (lines 245 to 256): the line built
  from item \<open>t\<close>.
\<close>

definition make_line :: "host \<Rightarrow> real \<Rightarrow> jdict \<Rightarrow> jdict \<Rightarrow> exn + line" where
  "make_line h kdv receipt t =
     (case py_float (dict_get_default t ''quantity'' (JInt 1)) of
        Inl e \<Rightarrow> Inl e
      | Inr qty \<Rightarrow>
     (case money_to_float (py_or (py_or (dict_get t ''price'') (dict_get t ''amount_paid''))
                                 (dict_get receipt ''total_price'')) of
        Inl e \<Rightarrow> Inl e
      | Inr unit \<Rightarrow>
          (let line_net = round2 (qty * unit)
           in Inr \<lparr> ProductName =
                       py_or (dict_get t ''title'')
                             (JStr (''Etsy Item #'' @ py_str h (dict_get t ''transaction_id''))),
                     Quantity = qty,
                     UnitPrice = unit,
                     VatRate = kdv,
                     VatAmount = round2 (line_net * kdv / 100),
                     LineExtensionAmount = line_net \<rparr>)))"

text \<open>
  The loop itself, with its two accumulators \<^verbatim>\<open>lines\<close> and \<^verbatim>\<open>total_net\<close>.
\<close>

fun lines_loop :: "host \<Rightarrow> real \<Rightarrow> jdict \<Rightarrow> jdict list \<Rightarrow> line list \<times> real \<Rightarrow> exn + line list \<times> real" where
  "lines_loop h kdv receipt [] acc = Inr acc"
| "lines_loop h kdv receipt (t # txs) (lines, total_net) =
     (case make_line h kdv receipt t of
        Inl e \<Rightarrow> Inl e
      | Inr entry \<Rightarrow>
          lines_loop h kdv receipt txs (lines @ [entry], total_net + LineExtensionAmount entry))"

definition utcfromtimestamp :: "int \<Rightarrow> exn + int" where
  \<comment> \<open>\<^verbatim>\<open>datetime.utcfromtimestamp(ts)\<close>: defined for the years 1 to 9999
      (\<^verbatim>\<open>ValueError\<close> outside; \<^verbatim>\<open>OverflowError\<close> when far outside)\<close>
  "utcfromtimestamp ts =
     (if - 62135596800 \<le> ts \<and> ts \<le> 253402300799 then Inr ts else Inl ValueError)"

text \<open>
  The synthetic line of an order without line items (lines 258 to 267).
\<close>

definition order_line :: "host \<Rightarrow> real \<Rightarrow> jdict \<Rightarrow> exn + line list \<times> real" where
  "order_line h kdv receipt =
     (case money_to_float (py_or (dict_get receipt ''grandtotal'')
                                 (dict_get receipt ''total_price'')) of
        Inl e \<Rightarrow> Inl e
      | Inr grand \<Rightarrow>
          (let total_net = round2 grand
           in Inr ([\<lparr> ProductName =
                          JStr (''Etsy Order #'' @ py_str h (dict_get receipt ''receipt_id'')),
                        Quantity = 1,
                        UnitPrice = total_net,
                        VatRate = kdv,
                        VatAmount = round2 (total_net * kdv / 100),
                        LineExtensionAmount = total_net \<rparr>],
                   total_net)))"

text \<open>
  \<open>now\<close> is the reading \<^verbatim>\<open>int(time.time())\<close>, used only when the receipt carries
  no timestamp.
\<close>

definition build_luca_payload :: "host \<Rightarrow> int \<Rightarrow> settings \<Rightarrow> jdict \<Rightarrow> jdict list \<Rightarrow> exn + payload" where
  "build_luca_payload h now st receipt txs =
     (case float_of_str (st_get_or st ''default_kdv_rate'' ''0'') of
        None \<Rightarrow> Inl ValueError
      | Some kdv \<Rightarrow>
     (case listed_currency receipt of
        Inl e \<Rightarrow> Inl e
      | Inr listed \<Rightarrow>
     (let currency = (case listed of
                        Some c \<Rightarrow> c
                      | None \<Rightarrow> JStr (st_get_or st ''currency_fallback'' (DEFAULT_CURRENCY h)))
      in
     (case str_strip (py_or (dict_get receipt ''name'') (JStr ''Etsy Buyer'')) of
        Inl e \<Rightarrow> Inl e
      | Inr buyer_name \<Rightarrow>
     (case build_address receipt of
        Inl e \<Rightarrow> Inl e
      | Inr addr \<Rightarrow>
     (case (if txs \<noteq> [] then lines_loop h kdv receipt txs ([], 0)
            else order_line h kdv receipt) of
        Inl e \<Rightarrow> Inl e
      | Inr (lines, total_net) \<Rightarrow>
     (let total_vat = round2 (total_net * kdv / 100);
          total_gross = round2 (total_net + total_vat);
          stamp = py_or (dict_get receipt ''updated_timestamp'') (dict_get receipt ''created_timestamp'')
      in
     (case (if truthy stamp then py_int stamp else Inr now) of
        Inl e \<Rightarrow> Inl e
      | Inr ts \<Rightarrow>
     (case utcfromtimestamp ts of
        Inl e \<Rightarrow> Inl e
      | Inr dt \<Rightarrow>
     (case st ''luca_company_id'' of
        None \<Rightarrow> Inl KeyError
      | Some cid \<Rightarrow>
     (case float_of_str cid of
        None \<Rightarrow> Inl ValueError
      | Some company \<Rightarrow>
          Inr \<lparr> IdFaturaExternal = py_str h (dict_get receipt ''receipt_id''),
                CompanyId = company,
                InvoiceInstant = dt,
                OrderNumber = py_str h (dict_get receipt ''receipt_id''),
                ReceiverName = buyer_name,
                Address = addr,
                Products = lines,
                CurrencyCode = currency,
                TotalLineExtensionAmount = total_net,
                TotalVATAmount = total_vat,
                TotalTaxInclusiveAmount = total_gross,
                TotalPayableAmount = total_gross,
                WebAddress = ''https://www.etsy.com/shop/''
                             @ py_str h (dict_get_default receipt ''seller_user_id'' (JStr [])) \<rparr>
     )))))))))))"

section \<open>DB\<close>

text \<open>
  The three tables of \<^verbatim>\<open>db_init\<close>, each keyed by its primary key.  A column of the
  \<^verbatim>\<open>invoices\<close> table holds the value bound to it, \<open>JNull\<close> for SQL \<^verbatim>\<open>NULL\<close>.
  SQLite's column affinity (a number bound to a \<^verbatim>\<open>TEXT\<close> column is stored as its
  text) is not modelled.  \<open>ord_raw_json\<close> holds the record of which the column holds
  the \<^verbatim>\<open>json.dumps\<close> text.
\<close>

record order_row =
  ord_receipt_id :: string
  ord_buyer_name :: string
  ord_total :: real
  ord_currency :: json
  ord_status :: string
  ord_updated_epoch :: int
  ord_raw_json :: jdict
  ord_created_at :: string
  ord_updated_at :: string

record invoice_row =
  inv_receipt_id :: string
  inv_ettn :: json
  inv_invoice_number :: json
  inv_url :: json
  inv_status :: json
  inv_error :: json
  inv_created_at :: string
  inv_updated_at :: string

record database =
  settings_tbl :: settings
  orders :: "string \<rightharpoonup> order_row"
  invoices :: "string \<rightharpoonup> invoice_row"

definition db_get_setting :: "database \<Rightarrow> string \<Rightarrow> string \<Rightarrow> string" where
  "db_get_setting db key dflt = (case settings_tbl db key of None \<Rightarrow> dflt | Some v \<Rightarrow> v)"

definition db_set_setting :: "string \<Rightarrow> string \<Rightarrow> database \<Rightarrow> database" where
  "db_set_setting key v db = db\<lparr>settings_tbl := (settings_tbl db)(key \<mapsto> v)\<rparr>"

definition settings_all :: "database \<Rightarrow> settings" where
  "settings_all db = settings_tbl db"

definition sql_bind :: "json \<Rightarrow> exn + json" where
  \<comment> \<open>binding a Python value to a statement parameter: lists and dictionaries are
      refused, an integer must fit 64 bits, a \<^verbatim>\<open>bool\<close> is bound as an integer\<close>
  "sql_bind v =
     (case v of
        JList xs \<Rightarrow> Inl InterfaceError
      | JObj d \<Rightarrow> Inl InterfaceError
      | JBool b \<Rightarrow> Inr (JInt (if b then 1 else 0))
      | JInt i \<Rightarrow> if - (2 ^ 63) \<le> i \<and> i < 2 ^ 63 then Inr (JInt i) else Inl OverflowError
      | _ \<Rightarrow> Inr v)"

text \<open>
  Lines 313 to 321 of \<^verbatim>\<open>db_upsert_order\<close>: the row of values handed to the
  \<^verbatim>\<open>INSERT\<close> statement, as bound.  \<open>clock\<close> is the reading \<^verbatim>\<open>int(time.time())\<close>,
  used only when the record carries no timestamp, and \<open>now\<close> the text of
  \<^verbatim>\<open>now_iso()\<close>.
\<close>

definition order_values :: "host \<Rightarrow> int \<Rightarrow> string \<Rightarrow> jdict \<Rightarrow> database \<Rightarrow> exn + order_row" where
  "order_values h clock now rcpt db =
     (let rid = py_str h (dict_get rcpt ''receipt_id'')
      in
     (case str_strip (py_or (dict_get rcpt ''name'') (JStr ''Etsy Buyer'')) of
        Inl e \<Rightarrow> Inl e
      | Inr buyer \<Rightarrow>
     (case listed_currency rcpt of
        Inl e \<Rightarrow> Inl e
      | Inr listed \<Rightarrow>
     (let currency = (case listed of
                        Some c \<Rightarrow> c
                      | None \<Rightarrow> JStr (db_get_setting db ''currency_fallback'' (DEFAULT_CURRENCY h)))
      in
     (case money_to_float (py_or (dict_get rcpt ''grandtotal'') (dict_get rcpt ''total_price'')) of
        Inl e \<Rightarrow> Inl e
      | Inr total_amount \<Rightarrow>
     (case str_upper (py_or (dict_get rcpt ''status'') (JStr [])) of
        Inl e \<Rightarrow> Inl e
      | Inr status \<Rightarrow>
     (let stamp = py_or (py_or (dict_get rcpt ''updated_timestamp'') (dict_get rcpt ''last_modified_tsz''))
                        (dict_get rcpt ''created_timestamp'')
      in
     (case (if truthy stamp then py_int stamp else Inr clock) of
        Inl e \<Rightarrow> Inl e
      | Inr updated \<Rightarrow>
     (case sql_bind currency of
        Inl e \<Rightarrow> Inl e
      | Inr bound_currency \<Rightarrow>
     (case sql_bind (JInt updated) of
        Inl e \<Rightarrow> Inl e
      | Inr bound_updated \<Rightarrow>
          Inr \<lparr> ord_receipt_id = rid,
                ord_buyer_name = buyer,
                ord_total = total_amount,
                ord_currency = bound_currency,
                ord_status = status,
                ord_updated_epoch = updated,
                ord_raw_json = rcpt,
                ord_created_at = now,
                ord_updated_at = now \<rparr>))))))))))"

text \<open>
  The statement itself (lines 324 to 335): insert the row, or on a conflict of the key
  overwrite the seven columns the \<^verbatim>\<open>DO UPDATE SET\<close> clause lists.
\<close>

definition db_upsert_order :: "host \<Rightarrow> int \<Rightarrow> string \<Rightarrow> jdict \<Rightarrow> database \<Rightarrow> exn + database" where
  "db_upsert_order h clock now rcpt db =
     (case order_values h clock now rcpt db of
        Inl e \<Rightarrow> Inl e
      | Inr excluded \<Rightarrow>
          Inr (db\<lparr>orders := (orders db)(ord_receipt_id excluded \<mapsto>
                 (case orders db (ord_receipt_id excluded) of
                    None \<Rightarrow> excluded
                  | Some row \<Rightarrow>
                      row\<lparr> ord_buyer_name := ord_buyer_name excluded,
                           ord_total := ord_total excluded,
                           ord_currency := ord_currency excluded,
                           ord_status := ord_status excluded,
                           ord_updated_epoch := ord_updated_epoch excluded,
                           ord_raw_json := ord_raw_json excluded,
                           ord_updated_at := ord_updated_at excluded \<rparr>))\<rparr>))"

definition db_get_order :: "string \<Rightarrow> database \<Rightarrow> order_row option" where
  "db_get_order receipt_id db = orders db receipt_id"

text \<open>
  \<^verbatim>\<open>db_upsert_invoice(receipt_id, **fields)\<close>: \<open>fields\<close> are the keyword arguments
  of the call, \<open>fields_get\<close> is \<^verbatim>\<open>fields.get\<close>, and \<open>now\<close> the text of \<^verbatim>\<open>now_iso()\<close>.
\<close>

type_synonym fields = "string \<rightharpoonup> json"

definition fields_get :: "fields \<Rightarrow> string \<Rightarrow> json" where
  "fields_get f k = (case f k of None \<Rightarrow> JNull | Some v \<Rightarrow> v)"

definition db_upsert_invoice :: "string \<Rightarrow> string \<Rightarrow> fields \<Rightarrow> database \<Rightarrow> exn + database" where
  "db_upsert_invoice now receipt_id f db =
     (let status = (case invoices db receipt_id of
                      Some row \<Rightarrow> fields_get f ''status''
                    | None \<Rightarrow> py_or (fields_get f ''status'') (JStr ''NONE''))
      in
     (case sql_bind (fields_get f ''ettn'') of
        Inl e \<Rightarrow> Inl e
      | Inr ettn \<Rightarrow>
     (case sql_bind (fields_get f ''invoice_number'') of
        Inl e \<Rightarrow> Inl e
      | Inr invoice_number \<Rightarrow>
     (case sql_bind (fields_get f ''url'') of
        Inl e \<Rightarrow> Inl e
      | Inr url \<Rightarrow>
     (case sql_bind status of
        Inl e \<Rightarrow> Inl e
      | Inr bound_status \<Rightarrow>
     (case sql_bind (fields_get f ''error'') of
        Inl e \<Rightarrow> Inl e
      | Inr err \<Rightarrow>
          Inr (db\<lparr>invoices := (invoices db)(receipt_id \<mapsto>
                 (case invoices db receipt_id of
                    Some row \<Rightarrow>
                      row\<lparr> inv_ettn := ettn,
                           inv_invoice_number := invoice_number,
                           inv_url := url,
                           inv_status := bound_status,
                           inv_error := err,
                           inv_updated_at := now \<rparr>
                  | None \<Rightarrow>
                      \<lparr> inv_receipt_id = receipt_id,
                        inv_ettn = ettn,
                        inv_invoice_number = invoice_number,
                        inv_url = url,
                        inv_status = bound_status,
                        inv_error = err,
                        inv_created_at = now,
                        inv_updated_at = now \<rparr>))\<rparr>)))))))"

definition db_get_invoice :: "string \<Rightarrow> database \<Rightarrow> invoice_row option" where
  "db_get_invoice receipt_id db = invoices db receipt_id"

section \<open>The outside world\<close>

text \<open>
  Everything outside the process is a state \<open>'w\<close>: the two remote services and the
  clock.  Reading the clock is a function of that state; an HTTP client
  (\<^verbatim>\<open>etsy_refresh_access_token\<close>, \<^verbatim>\<open>etsy_receipts\<close>, \<^verbatim>\<open>etsy_transactions\<close>,
  \<^verbatim>\<open>luca_login\<close>, \<^verbatim>\<open>luca_save_archive\<close>, \<^verbatim>\<open>luca_send_archive\<close>,
  \<^verbatim>\<open>luca_get_external_url\<close>) either raises or returns, and takes the world to its
  next state.  \<open>time_time\<close> is \<^verbatim>\<open>int(time.time())\<close>.  Tokens and response bodies are
  of type \<^verbatim>\<open>Any\<close>.
\<close>

record 'w env =
  time_time :: "'w \<Rightarrow> int"
  now_iso :: "'w \<Rightarrow> string"
  etsy_refresh_access_token :: "settings \<Rightarrow> 'w \<Rightarrow> (exn + json) \<times> 'w"
  etsy_receipts :: "settings \<Rightarrow> json \<Rightarrow> int \<Rightarrow> 'w \<Rightarrow> (exn + jdict list) \<times> 'w"
  etsy_transactions :: "settings \<Rightarrow> json \<Rightarrow> string \<Rightarrow> 'w \<Rightarrow> (exn + jdict list) \<times> 'w"
  luca_login :: "settings \<Rightarrow> 'w \<Rightarrow> (exn + json) \<times> 'w"
  luca_save_archive :: "settings \<Rightarrow> json \<Rightarrow> payload \<Rightarrow> 'w \<Rightarrow> (exn + json) \<times> 'w"
  luca_send_archive :: "settings \<Rightarrow> json \<Rightarrow> json \<Rightarrow> 'w \<Rightarrow> (exn + json) \<times> 'w"
  luca_get_external_url :: "settings \<Rightarrow> json \<Rightarrow> json \<Rightarrow> 'w \<Rightarrow> (exn + json) \<times> 'w"

section \<open>Sync core\<close>

text \<open>
  The body of the \<^verbatim>\<open>try\<close> block (lines 461 to 473) for one order, on the store, the
  world and the counter \<^verbatim>\<open>created\<close>.  It returns the exception it raised, if any,
  with the state reached by then.
\<close>

definition order_body ::
  "host \<Rightarrow> 'w env \<Rightarrow> settings \<Rightarrow> json \<Rightarrow> json \<Rightarrow> bool \<Rightarrow> jdict \<Rightarrow> string
     \<Rightarrow> database \<times> 'w \<times> nat \<Rightarrow> exn option \<times> database \<times> 'w \<times> nat" where
  "order_body h env st access token auto_invoice rc rid s =
     (case s of (db, w, n) \<Rightarrow>
     (case db_upsert_order h (time_time env w) (now_iso env w) rc db of
        Inl e \<Rightarrow> (Some e, db, w, n)
      | Inr db1 \<Rightarrow>
          if \<not> auto_invoice then (None, db1, w, n)
          else
     (case etsy_transactions env st access rid w of
        (Inl e, w1) \<Rightarrow> (Some e, db1, w1, n)
      | (Inr txs, w1) \<Rightarrow>
     (case build_luca_payload h (time_time env w1) st rc txs of
        Inl e \<Rightarrow> (Some e, db1, w1, n)
      | Inr payload \<Rightarrow>
     (case luca_save_archive env st token payload w1 of
        (Inl e, w2) \<Rightarrow> (Some e, db1, w2, n)
      | (Inr saved, w2) \<Rightarrow>
     (case attr_get saved ''Ettn'' of
        Inl e \<Rightarrow> (Some e, db1, w2, n)
      | Inr ettn1 \<Rightarrow>
     (case (if truthy ettn1 then Inr ettn1 else attr_get saved ''ETTN'') of
        Inl e \<Rightarrow> (Some e, db1, w2, n)
      | Inr ettn2 \<Rightarrow>
     (case attr_get saved ''InvoiceNumber'' of
        Inl e \<Rightarrow> (Some e, db1, w2, n)
      | Inr invno1 \<Rightarrow>
     (let ettn = py_or ettn2 (JStr []);
          invno = py_or invno1 (JStr [])
      in
     (case db_upsert_invoice (now_iso env w2) rid
             [''status'' \<mapsto> JStr ''CREATED'', ''ettn'' \<mapsto> ettn, ''invoice_number'' \<mapsto> invno,
              ''url'' \<mapsto> JNull, ''error'' \<mapsto> JNull] db1 of
        Inl e \<Rightarrow> (Some e, db1, w2, n)
      | Inr db2 \<Rightarrow>
          if \<not> truthy ettn then (None, db2, w2, n + 1)
          else
     (case luca_send_archive env st token ettn w2 of
        (Inl e, w3) \<Rightarrow> (Some e, db2, w3, n + 1)
      | (Inr sent, w3) \<Rightarrow>
     (case luca_get_external_url env st token ettn w3 of
        (Inl e, w4) \<Rightarrow> (Some e, db2, w4, n + 1)
      | (Inr url, w4) \<Rightarrow>
     (case db_upsert_invoice (now_iso env w4) rid
             [''status'' \<mapsto> JStr ''SENT'', ''ettn'' \<mapsto> ettn, ''invoice_number'' \<mapsto> invno,
              ''url'' \<mapsto> url, ''error'' \<mapsto> JNull] db2 of
        Inl e \<Rightarrow> (Some e, db2, w4, n + 1)
      | Inr db3 \<Rightarrow> (None, db3, w4, n + 1))))))))))))))"

text \<open>
  The state of the loop over the fetched orders: the store, the world, and the locals
  \<^verbatim>\<open>max_updated\<close>, \<^verbatim>\<open>created\<close> and \<^verbatim>\<open>errs\<close>.
\<close>

record 'w cycle =
  store :: database
  world :: 'w
  max_updated :: int
  created :: nat
  errs :: nat

text \<open>
  One round of the loop (lines 457 to 476).  The order's id and update time are read
  before the \<^verbatim>\<open>try\<close>: an exception there leaves the function (result \<open>Some e\<close>).
  An exception of the body is handled: \<^verbatim>\<open>errs\<close> grows by one and an \<^verbatim>\<open>ERROR\<close>
  record is written.
\<close>

definition order_updated :: "'w env \<Rightarrow> jdict \<Rightarrow> 'w \<Rightarrow> exn + int" where
  "order_updated env rc w =
     (let stamp = py_or (py_or (dict_get rc ''updated_timestamp'') (dict_get rc ''last_modified_tsz''))
                        (dict_get rc ''created_timestamp'')
      in if truthy stamp then py_int stamp else Inr (time_time env w))"

definition order_step ::
  "host \<Rightarrow> 'w env \<Rightarrow> settings \<Rightarrow> json \<Rightarrow> json \<Rightarrow> bool \<Rightarrow> jdict \<Rightarrow> 'w cycle \<Rightarrow> exn option \<times> 'w cycle" where
  "order_step h env st access token auto_invoice rc c =
     (let rid = py_str h (dict_get rc ''receipt_id'')
      in
     (case order_updated env rc (world c) of
        Inl e \<Rightarrow> (Some e, c)
      | Inr updated \<Rightarrow>
     (let c1 = (if updated > max_updated c then c\<lparr>max_updated := updated\<rparr> else c)
      in
     (case order_body h env st access token auto_invoice rc rid (store c1, world c1, created c1) of
        (None, db, w, n) \<Rightarrow> (None, c1\<lparr>store := db, world := w, created := n\<rparr>)
      | (Some e, db, w, n) \<Rightarrow>
          (case db_upsert_invoice (now_iso env w) rid
                  [''status'' \<mapsto> JStr ''ERROR'', ''error'' \<mapsto> JStr (exc_text h e)] db of
             Inl e2 \<Rightarrow> (Some e2, c1\<lparr>store := db, world := w, created := n, errs := errs c1 + 1\<rparr>)
           | Inr db2 \<Rightarrow> (None, c1\<lparr>store := db2, world := w, created := n, errs := errs c1 + 1\<rparr>))))))"

fun sync_loop ::
  "host \<Rightarrow> 'w env \<Rightarrow> settings \<Rightarrow> json \<Rightarrow> json \<Rightarrow> bool \<Rightarrow> jdict list \<Rightarrow> 'w cycle \<Rightarrow> exn option \<times> 'w cycle" where
  "sync_loop h env st access token auto_invoice [] c = (None, c)"
| "sync_loop h env st access token auto_invoice (rc # receipts) c =
     (case order_step h env st access token auto_invoice rc c of
        (Some e, c1) \<Rightarrow> (Some e, c1)
      | (None, c1) \<Rightarrow> sync_loop h env st access token auto_invoice receipts c1)"

text \<open>
  The cycle.  Its result is what the call returns or raises, with the store and the
  world it leaves behind.  The lock \<^verbatim>\<open>DB_LOCK\<close> is not modelled: cycles run one
  after the other.
\<close>

definition sync_orders_and_maybe_invoice ::
  "host \<Rightarrow> 'w env \<Rightarrow> database \<times> 'w \<Rightarrow> (exn + nat \<times> nat \<times> nat) \<times> database \<times> 'w" where
  "sync_orders_and_maybe_invoice h env s =
     (case s of (db, w) \<Rightarrow>
     (let st = settings_all db
      in
     (case int_of_str (db_get_setting db ''last_sync_epoch'' ''0'') of
        None \<Rightarrow> (Inl ValueError, db, w)
      | Some stored \<Rightarrow>
     (let last_sync = (if stored = 0 then time_time env w - 24 * 3600 else stored)
      in
     (case etsy_refresh_access_token env st w of
        (Inl e, w1) \<Rightarrow> (Inl e, db, w1)
      | (Inr access, w1) \<Rightarrow>
     (case etsy_receipts env st access last_sync w1 of
        (Inl e, w2) \<Rightarrow> (Inl e, db, w2)
      | (Inr receipts, w2) \<Rightarrow>
          if receipts = []
          then (Inr (0, 0, 0), db_set_setting ''last_sync_epoch'' (show_int (last_sync + 1)) db, w2)
          else
     (let auto_invoice = (lower (case st ''auto_invoice'' of None \<Rightarrow> ''false'' | Some v \<Rightarrow> v) = ''true'')
      in
     (case (if auto_invoice then luca_login env st w2 else (Inr JNull, w2)) of
        (Inl e, w3) \<Rightarrow> (Inl e, db, w3)
      | (Inr token, w3) \<Rightarrow>
     (case sync_loop h env st access token auto_invoice receipts
             \<lparr> store = db, world = w3, max_updated = last_sync, created = 0, errs = 0 \<rparr> of
        (Some e, c) \<Rightarrow> (Inl e, store c, world c)
      | (None, c) \<Rightarrow>
          (Inr (length receipts, created c, errs c),
           db_set_setting ''last_sync_epoch'' (show_int (max_updated c + 1)) (store c),
           world c))))))))))"

text \<open>
  The watermark, as the next cycle will read it.
\<close>

definition watermark :: "database \<Rightarrow> int option" where
  "watermark db = int_of_str (db_get_setting db ''last_sync_epoch'' ''0'')"

text \<open>
  Cycles in sequence, as the scheduler and the \<^verbatim>\<open>sync-now\<close> action run them; what a
  cycle returns or raises is dropped.
\<close>

fun cycles :: "host \<Rightarrow> 'w env \<Rightarrow> nat \<Rightarrow> database \<times> 'w \<Rightarrow> database \<times> 'w" where
  "cycles h env 0 s = s"
| "cycles h env (Suc n) s = cycles h env n (snd (sync_orders_and_maybe_invoice h env s))"

section \<open>Routes\<close>

text \<open>
  The action \<^verbatim>\<open>send_invoice\<close> (lines 600 to 611), for an authorized request.  The
  rejection \<^verbatim>\<open>HTTPException(400, ...)\<close> is the exception \<open>HTTPException 400\<close>.
\<close>

definition send_invoice ::
  "'w env \<Rightarrow> string \<Rightarrow> database \<times> 'w \<Rightarrow> exn option \<times> database \<times> 'w" where
  "send_invoice env receipt_id s =
     (case s of (db, w) \<Rightarrow>
     (let st = settings_all db
      in
     (case db_get_invoice receipt_id db of
        None \<Rightarrow> (Some (HTTPException 400), db, w)
      | Some invoice \<Rightarrow>
          if \<not> truthy (inv_ettn invoice) then (Some (HTTPException 400), db, w)
          else
     (case luca_login env st w of
        (Inl e, w1) \<Rightarrow> (Some e, db, w1)
      | (Inr token, w1) \<Rightarrow>
     (case luca_send_archive env st token (inv_ettn invoice) w1 of
        (Inl e, w2) \<Rightarrow> (Some e, db, w2)
      | (Inr sent, w2) \<Rightarrow>
     (case luca_get_external_url env st token (inv_ettn invoice) w2 of
        (Inl e, w3) \<Rightarrow> (Some e, db, w3)
      | (Inr url, w3) \<Rightarrow>
     (case db_upsert_invoice (now_iso env w3) receipt_id
             [''status'' \<mapsto> JStr ''SENT'', ''url'' \<mapsto> url] db of
        Inl e \<Rightarrow> (Some e, db, w3)
      | Inr db1 \<Rightarrow> (None, db1, w3))))))))"

section \<open>Vocabulary of the statements\<close>

text \<open>
  The id under which an order is stored (line 457), the status and the error text of
  an order's invoice record, and the shapes of well-formed input to the payload mapper:
  a field is absent (or null) or has the type the mapper reads it at.
\<close>

definition order_id :: "host \<Rightarrow> jdict \<Rightarrow> string" where
  "order_id h rc = py_str h (dict_get rc ''receipt_id'')"

definition invoice_status :: "database \<Rightarrow> string \<Rightarrow> json option" where
  "invoice_status db rid = map_option inv_status (invoices db rid)"

definition invoice_error :: "database \<Rightarrow> string \<Rightarrow> json option" where
  "invoice_error db rid = map_option inv_error (invoices db rid)"

definition is_text :: "json \<Rightarrow> bool" where
  "is_text v = (case v of JNull \<Rightarrow> True | JStr s \<Rightarrow> True | _ \<Rightarrow> False)"

definition is_number :: "json \<Rightarrow> bool" where
  "is_number v = (case v of JInt i \<Rightarrow> True | JFloat q \<Rightarrow> True | _ \<Rightarrow> False)"

definition is_money :: "json \<Rightarrow> bool" where
  "is_money v =
     (case v of
        JNull \<Rightarrow> True
      | JObj d \<Rightarrow> is_number (dict_get_default d ''amount'' (JInt 0))
                  \<and> is_number (dict_get_default d ''divisor'' (JInt 100))
      | _ \<Rightarrow> False)"

definition is_price :: "json \<Rightarrow> bool" where
  "is_price v = (is_money v \<or> is_number v)"

definition is_stamp :: "json \<Rightarrow> bool" where
  "is_stamp v =
     (case v of
        JNull \<Rightarrow> True
      | JInt i \<Rightarrow> - 62135596800 \<le> i \<and> i \<le> 253402300799
      | _ \<Rightarrow> False)"

definition receipt_ok :: "jdict \<Rightarrow> bool" where
  "receipt_ok receipt =
     (is_money (dict_get receipt ''grandtotal'') \<and> is_money (dict_get receipt ''total_price'')
      \<and> is_text (dict_get receipt ''name'') \<and> is_text (dict_get receipt ''first_line'')
      \<and> is_text (dict_get receipt ''city'') \<and> is_text (dict_get receipt ''state'')
      \<and> is_stamp (dict_get receipt ''updated_timestamp'')
      \<and> is_stamp (dict_get receipt ''created_timestamp''))"

definition line_item_ok :: "jdict \<Rightarrow> bool" where
  "line_item_ok t =
     (is_number (dict_get_default t ''quantity'' (JInt 1))
      \<and> is_price (dict_get t ''price'') \<and> is_price (dict_get t ''amount_paid''))"

definition settings_ok :: "settings \<Rightarrow> bool" where
  "settings_ok st =
     (float_of_str (st_get_or st ''default_kdv_rate'' ''0'') \<noteq> None
      \<and> (case st ''luca_company_id'' of None \<Rightarrow> False | Some c \<Rightarrow> float_of_str c \<noteq> None))"

section \<open>Sample data\<close>

text \<open>
  Concrete inputs for the instances below: a host, the settings as \<^verbatim>\<open>db_init\<close> seeds
  them when the process environment sets none of the variables it reads (lines 78 to
  94), a shop that has auto-invoice switched on, a few receipts, and a world whose clock
  advances with every HTTP call and whose invoicing provider refuses order 2.
\<close>

definition plain_host :: host where
  "plain_host = \<lparr> DEFAULT_CURRENCY = ''TRY'', py_repr = (\<lambda>j. ''?''),
                   exc_text = (\<lambda>e. case e of RemoteError s \<Rightarrow> s | _ \<Rightarrow> ''error'') \<rparr>"

definition seed_settings :: settings where
  "seed_settings = map_of
     [(''last_sync_epoch'', ''0''), (''poll_minutes'', ''5''), (''lookback_days'', ''60''),
      (''default_kdv_rate'', ''0.0''), (''currency_fallback'', ''TRY''), (''auto_invoice'', ''false''),
      (''etsy_client_id'', []), (''etsy_refresh_token'', []), (''etsy_shop_id'', []),
      (''luca_identity'', []), (''luca_password'', []), (''luca_company_id'', []),
      (''luca_base'', ''https://einvoiceapiturmob.luca.com.tr'')]"

definition rate18 :: settings where
  "rate18 = map_of [(''default_kdv_rate'', ''18''), (''luca_company_id'', ''1234567890'')]"

definition shop_settings :: settings where
  "shop_settings = seed_settings(''auto_invoice'' \<mapsto> ''true'', ''luca_company_id'' \<mapsto> ''1234567890'',
                                 ''last_sync_epoch'' \<mapsto> ''1700000000'')"

definition two_items :: "jdict list" where
  "two_items =
     [[(''quantity'', JInt 2), (''price'', JObj [(''amount'', JInt 1000), (''divisor'', JInt 100)])],
      [(''quantity'', JInt 1), (''price'', JObj [(''amount'', JInt 500), (''divisor'', JInt 100)])]]"

definition order42 :: jdict where
  "order42 = [(''receipt_id'', JInt 7),
              (''grandtotal'', JObj [(''amount'', JInt 4200), (''divisor'', JInt 100),
                                     (''currency_code'', JStr ''USD'')])]"

definition sample_order :: "int \<Rightarrow> int \<Rightarrow> jdict" where
  "sample_order i t =
     [(''receipt_id'', JInt i), (''name'', JStr ''Ada''), (''status'', JStr ''paid''),
      (''grandtotal'', JObj [(''amount'', JInt 4200), (''divisor'', JInt 100),
                             (''currency_code'', JStr ''USD'')]),
      (''updated_timestamp'', JInt t)]"

definition three_orders :: "jdict list" where
  "three_orders =
     [sample_order 1 1700000100, sample_order 2 1700000300, sample_order 3 1700000200]"

definition empty_db :: database where
  "empty_db = \<lparr> settings_tbl = seed_settings, orders = Map.empty, invoices = Map.empty \<rparr>"

definition shop_db :: database where
  "shop_db = \<lparr> settings_tbl = shop_settings, orders = Map.empty, invoices = Map.empty \<rparr>"

definition created_invoice :: invoice_row where
  "created_invoice = \<lparr> inv_receipt_id = ''7'', inv_ettn = JStr ''E-7'', inv_invoice_number = JStr ''INV-7'',
       inv_url = JNull, inv_status = JStr ''CREATED'', inv_error = JNull,
       inv_created_at = ''2024-01-01T10:00:00'', inv_updated_at = ''2024-01-01T10:00:00'' \<rparr>"

definition invoiced_db :: database where
  "invoiced_db = empty_db\<lparr> invoices := [''7'' \<mapsto> created_invoice] \<rparr>"

definition old_order :: order_row where
  "old_order = \<lparr> ord_receipt_id = ''7'', ord_buyer_name = ''Ada'', ord_total = 10,
       ord_currency = JStr ''EUR'', ord_status = ''OPEN'', ord_updated_epoch = 1690000000,
       ord_raw_json = [(''receipt_id'', JInt 7)],
       ord_created_at = ''2024-01-01T10:00:00'', ord_updated_at = ''2024-01-01T10:00:00'' \<rparr>"

definition ordered_db :: database where
  "ordered_db = empty_db\<lparr> orders := [''7'' \<mapsto> old_order] \<rparr>"

definition demo_env :: "jdict list \<Rightarrow> nat env" where
  "demo_env batch =
     \<lparr> time_time = (\<lambda>w. 1700000000 + int w),
       now_iso = (\<lambda>w. ''2024-01-02T09:00:00''),
       etsy_refresh_access_token = (\<lambda>st w. (Inr (JStr ''access''), Suc w)),
       etsy_receipts = (\<lambda>st access since w. (Inr batch, Suc w)),
       etsy_transactions = (\<lambda>st access rid w. (Inr [], Suc w)),
       luca_login = (\<lambda>st w. (Inr (JStr ''token''), Suc w)),
       luca_save_archive = (\<lambda>st token p w.
          (if IdFaturaExternal p = ''2'' then Inl (RemoteError ''500 Server Error'')
           else Inr (JObj [(''Ettn'', JStr (''E-'' @ IdFaturaExternal p)),
                           (''InvoiceNumber'', JStr (''INV-'' @ IdFaturaExternal p))]), Suc w)),
       luca_send_archive = (\<lambda>st token ettn w. (Inr JNull, Suc w)),
       luca_get_external_url = (\<lambda>st token ettn w. (Inr (JStr ''https://doc.example/view''), Suc w)) \<rparr>"

definition no_access_env :: "nat env" where
  "no_access_env = (demo_env three_orders)
     \<lparr> etsy_refresh_access_token := (\<lambda>st w. (Inl (RemoteError ''401 Unauthorized''), Suc w)) \<rparr>"

definition no_login_env :: "nat env" where
  "no_login_env = (demo_env three_orders)
     \<lparr> luca_login := (\<lambda>st w. (Inl (RemoteError ''401 Unauthorized''), Suc w)) \<rparr>"

definition start_cycle :: "nat cycle" where
  "start_cycle = \<lparr> store = shop_db, world = 3, max_updated = 1700000000, created = 0, errs = 0 \<rparr>"

definition failed_invoice :: invoice_row where
  "failed_invoice = \<lparr> inv_receipt_id = ''7'', inv_ettn = JNull, inv_invoice_number = JNull,
       inv_url = JNull, inv_status = JStr ''ERROR'', inv_error = JStr ''500 Server Error'',
       inv_created_at = ''2024-01-01T10:00:00'', inv_updated_at = ''2024-01-01T10:00:00'' \<rparr>"

section \<open>Facts about rounding and decimal text\<close>

lemma round_half_even_of_int [simp]: "round_half_even (of_int n) = n"
  by (simp add: round_half_even_def)

lemma round2_hundredths [simp]: "round2 (of_int n / 100) = of_int n / 100"
  by (simp add: round2_def)

lemma round2_idem [simp]: "round2 (round2 x) = round2 x"
proof -
  have "round2 x = of_int (round_half_even (x * 100)) / 100"
    by (simp add: round2_def)
  then show ?thesis
    by (simp only: round2_hundredths)
qed

lemma hundredthsI: "x = of_int n / 100 \<Longrightarrow> hundredths x"
  unfolding hundredths_def by (simp only: round2_hundredths)

lemma hundredths_round2 [simp]: "hundredths (round2 x)"
  by (simp add: hundredths_def)

lemma hundredthsE: "hundredths x \<Longrightarrow> \<exists>n. x = of_int n / 100"
  unfolding hundredths_def round2_def by metis

lemma hundredths_0 [simp]: "hundredths 0"
  using hundredthsI [of 0 0] by simp

lemma hundredths_add: "hundredths a \<Longrightarrow> hundredths b \<Longrightarrow> hundredths (a + b)"
proof -
  assume "hundredths a" "hundredths b"
  then obtain m n where "a = of_int m / 100" "b = of_int n / 100"
    by (blast dest: hundredthsE)
  then have "a + b = of_int (m + n) / 100"
    by (simp add: add_divide_distrib)
  then show ?thesis
    by (rule hundredthsI)
qed

lemma digit_char_cases:
  "d < 10 \<Longrightarrow> digit_char d \<in> set ''0123456789'' \<and> digit_of (digit_char d) = Some d"
proof -
  assume "d < 10"
  then have "d \<in> {0, 1, 2, 3, 4, 5, 6, 7, 8, 9}"
    by auto
  then show ?thesis
    by (auto simp: digit_char_def digit_of_def)
qed

lemma digits_acc_append:
  "digits_acc a (xs @ ys) = (case digits_acc a xs of None \<Rightarrow> None | Some b \<Rightarrow> digits_acc b ys)"
  by (induction xs arbitrary: a) (auto split: option.splits)

lemma digits_acc_show_nat: "digits_acc 0 (show_nat n) = Some n"
proof (induction n rule: show_nat.induct)
  case (1 n)
  show ?case
  proof (cases "n < 10")
    case True
    then show ?thesis
      by (simp add: show_nat.simps [of n] digit_char_cases)
  next
    case False
    with 1 have "digits_acc 0 (show_nat (n div 10)) = Some (n div 10)"
      by simp
    moreover have "digit_of (digit_char (n mod 10)) = Some (n mod 10)"
      by (simp add: digit_char_cases)
    ultimately show ?thesis
      using False by (simp add: show_nat.simps [of n] digits_acc_append)
  qed
qed

lemma show_nat_chars: "c \<in> set (show_nat n) \<Longrightarrow> c \<in> set ''0123456789''"
proof (induction n rule: show_nat.induct)
  case (1 n)
  show ?case
  proof (cases "n < 10")
    case True
    with 1 show ?thesis
      using digit_char_cases [of n] by (simp add: show_nat.simps [of n])
  next
    case False
    with 1 show ?thesis
      using digit_char_cases [of "n mod 10"] by (auto simp: show_nat.simps [of n])
  qed
qed

lemma show_nat_nonempty: "show_nat n \<noteq> []"
  by (subst show_nat.simps) simp

lemma strip_plain:
  assumes "s \<noteq> []" and "\<not> is_space (hd s)" and "\<not> is_space (last s)"
  shows "strip s = s"
proof -
  from assms have "dropWhile is_space s = s"
    by (cases s) simp_all
  moreover from assms have "dropWhile is_space (rev s) = rev s"
    by (cases "rev s") (simp_all add: last_rev [symmetric] hd_rev)
  ultimately show ?thesis
    by (simp add: strip_def)
qed

lemma digit_not_space: "c \<in> set ''0123456789'' \<Longrightarrow> \<not> is_space c \<and> c \<noteq> CHR ''-'' \<and> c \<noteq> CHR ''+''"
  by (auto simp: is_space_def)

lemma int_of_str_show_int [simp]: "int_of_str (show_int i) = Some i"
proof -
  let ?n = "show_nat (nat \<bar>i\<bar>)"
  have ne: "?n \<noteq> []"
    by (rule show_nat_nonempty)
  then have "hd ?n \<in> set ?n" and "last ?n \<in> set ?n"
    by simp_all
  then have hd: "hd ?n \<in> set ''0123456789''" and last: "last ?n \<in> set ''0123456789''"
    by (blast dest: show_nat_chars)+
  have val: "digits_value ?n = Some (nat \<bar>i\<bar>)"
    using ne by (simp add: digits_value_def digits_acc_show_nat)
  show ?thesis
  proof (cases "i < 0")
    case True
    then have s: "show_int i = CHR ''-'' # ?n"
      by (simp add: show_int_def abs_if)
    have "strip (CHR ''-'' # ?n) = CHR ''-'' # ?n"
      using ne last digit_not_space [of "last ?n"]
      by (intro strip_plain) (simp_all add: is_space_def)
    with val True show ?thesis
      by (simp add: s int_of_str_def)
  next
    case False
    then have s: "show_int i = ?n"
      by (simp add: show_int_def abs_if)
    have st: "strip ?n = ?n"
      using ne hd last digit_not_space by (intro strip_plain) blast+
    obtain c cs where cs: "?n = c # cs"
      using ne by (cases ?n) auto
    with hd have "c \<noteq> CHR ''-''" "c \<noteq> CHR ''+''"
      using digit_not_space [of c] by simp_all
    with val False cs st show ?thesis
      by (simp add: s int_of_str_def)
  qed
qed

lemma dict_get_Nil [simp]: "dict_get [] k = JNull"
  by (simp add: dict_get_def)

subsection \<open>Rules for evaluating the definitions on concrete input\<close>

lemmas eval_text = strip_def is_space_def digits_value_def digit_of_def unsigned_decimal_def
  float_of_str_def int_of_str_def show_int_def show_nat.simps digit_char_def

lemmas eval_py = py_or_def dict_get_def dict_get_default_def attr_get_def str_strip_def
  slice_to_def py_float_def py_int_def round2_def round_half_even_def money_to_float_def
  st_get_or_def

lemmas eval_mapper = listed_currency_def build_address_def make_line_def order_line_def
  utcfromtimestamp_def build_luca_payload_def

lemmas eval_ok = settings_ok_def receipt_ok_def line_item_ok_def is_text_def is_number_def
  is_money_def is_price_def is_stamp_def

lemmas eval_db = db_get_setting_def db_set_setting_def settings_all_def sql_bind_def fields_get_def
  db_upsert_invoice_def db_get_invoice_def db_get_order_def

lemmas eval_sync = order_values_def db_upsert_order_def order_body_def order_updated_def
  str_upper_def upper_def upper_char_def lower_def lower_char_def

lemmas eval_sample = plain_host_def seed_settings_def shop_settings_def shop_db_def sample_order_def
  three_orders_def demo_env_def order_id_def

section \<open>The money normalizer\<close>




section \<open>The payload mapper\<close>

lemma make_line_net:
  "make_line h kdv receipt t = Inr l \<Longrightarrow>
     LineExtensionAmount l = round2 (Quantity l * UnitPrice l) \<and> VatRate l = kdv
     \<and> VatAmount l = round2 (LineExtensionAmount l * kdv / 100)"
  by (auto simp: make_line_def Let_def split: sum.splits)

lemma lines_loop_result:
  "lines_loop h kdv receipt txs (ls, tn) = Inr (ls', tn') \<Longrightarrow>
     \<exists>new. ls' = ls @ new \<and> map (make_line h kdv receipt) txs = map Inr new
           \<and> tn' = tn + sum_list (map LineExtensionAmount new)"
proof (induction txs arbitrary: ls tn)
  case Nil
  then show ?case by simp
next
  case (Cons t txs)
  from Cons.prems obtain e where e: "make_line h kdv receipt t = Inr e"
    and rest: "lines_loop h kdv receipt txs (ls @ [e], tn + LineExtensionAmount e) = Inr (ls', tn')"
    by (auto split: sum.splits)
  from Cons.IH [OF rest] obtain new where
    "ls' = (ls @ [e]) @ new" "map (make_line h kdv receipt) txs = map Inr new"
    "tn' = tn + LineExtensionAmount e + sum_list (map LineExtensionAmount new)"
    by blast
  then show ?case
    using e by (intro exI [of _ "e # new"]) simp
qed

lemma made_lines_hundredths:
  "map (make_line h kdv receipt) txs = map Inr new \<Longrightarrow> hundredths (sum_list (map LineExtensionAmount new))"
proof (induction txs arbitrary: new)
  case Nil
  then show ?case by simp
next
  case (Cons t txs)
  then obtain e rest where new: "new = e # rest" and e: "make_line h kdv receipt t = Inr e"
    and rest: "map (make_line h kdv receipt) txs = map Inr rest"
    by (cases new) auto
  have "hundredths (LineExtensionAmount e)"
    using make_line_net [OF e] by simp
  with Cons.IH [OF rest] show ?case
    by (simp add: new hundredths_add)
qed

lemma build_luca_payload_parts:
  assumes "build_luca_payload h now st receipt txs = Inr p"
  shows "\<exists>kdv listed total_net.
           float_of_str (st_get_or st ''default_kdv_rate'' ''0'') = Some kdv
         \<and> listed_currency receipt = Inr listed
         \<and> (if txs \<noteq> [] then lines_loop h kdv receipt txs ([], 0) else order_line h kdv receipt)
               = Inr (Products p, total_net)
         \<and> TotalLineExtensionAmount p = total_net
         \<and> TotalVATAmount p = round2 (total_net * kdv / 100)
         \<and> TotalTaxInclusiveAmount p = round2 (total_net + round2 (total_net * kdv / 100))
         \<and> TotalPayableAmount p = TotalTaxInclusiveAmount p"
  using assms unfolding build_luca_payload_def Let_def
  by (auto split: option.splits sum.splits prod.splits)


lemma ex_built: "\<exists>p. build_luca_payload plain_host 0 rate18 [(''receipt_id'', JInt 7)] two_items = Inr p"
  by (simp add: eval_mapper eval_py eval_text two_items_def rate18_def plain_host_def Let_def)


lemma listed_total_hundredths:
  assumes "listed_currency receipt = Inr c"
    and "money_to_float (py_or (dict_get receipt ''grandtotal'') (dict_get receipt ''total_price'')) = Inr grand"
  shows "hundredths grand"
  using assms
  by (cases "dict_get receipt ''grandtotal''"; cases "dict_get receipt ''total_price''";
      auto simp: listed_currency_def py_or_def attr_get_def money_to_float_def Let_def
           split: sum.splits if_splits)

lemma order_line_single:
  assumes "order_line h kdv receipt = Inr (ls, tn)"
  shows "\<exists>grand l. money_to_float (py_or (dict_get receipt ''grandtotal'')
                                           (dict_get receipt ''total_price'')) = Inr grand
           \<and> ls = [l] \<and> Quantity l = 1 \<and> UnitPrice l = round2 grand \<and> tn = round2 grand"
proof (cases "money_to_float (py_or (dict_get receipt ''grandtotal'') (dict_get receipt ''total_price''))")
  case (Inl e)
  with assms show ?thesis
    by (simp add: order_line_def)
next
  case (Inr grand)
  with assms show ?thesis
    by (simp add: order_line_def Let_def) (metis line.select_convs(2,3))
qed

text \<open>
  Claim C7.  Whenever the payload mapper returns a payload for an empty list of line
  items, the payload has exactly one line, of quantity 1, whose unit price is the
  normalized grand total of the receipt (\<^verbatim>\<open>grandtotal\<close>, else \<^verbatim>\<open>total_price\<close>), and
  this value is also the payload's total net.
\<close>

theorem no_line_items_fallback:
  "build_luca_payload h now st receipt [] = Inr p \<longrightarrow>
     (\<exists>l. Products p = [l] \<and> Quantity l = 1
        \<and> money_to_float (py_or (dict_get receipt ''grandtotal'') (dict_get receipt ''total_price''))
            = Inr (UnitPrice l)
        \<and> TotalLineExtensionAmount p = UnitPrice l)"
proof
  assume built: "build_luca_payload h now st receipt [] = Inr p"
  from build_luca_payload_parts [OF built] obtain kdv listed total_net where
    listed: "listed_currency receipt = Inr listed"
    and line: "order_line h kdv receipt = Inr (Products p, total_net)"
    and net: "TotalLineExtensionAmount p = total_net"
    by auto
  from order_line_single [OF line] obtain grand l where
    grand: "money_to_float (py_or (dict_get receipt ''grandtotal'') (dict_get receipt ''total_price''))
              = Inr grand"
    and prod: "Products p = [l]" "Quantity l = 1" "UnitPrice l = round2 grand"
    and tn: "total_net = round2 grand"
    by blast
  have "round2 grand = grand"
    using listed_total_hundredths [OF listed grand] by (simp add: hundredths_def)
  with grand prod tn net show
    "\<exists>l. Products p = [l] \<and> Quantity l = 1
        \<and> money_to_float (py_or (dict_get receipt ''grandtotal'') (dict_get receipt ''total_price''))
            = Inr (UnitPrice l)
        \<and> TotalLineExtensionAmount p = UnitPrice l"
    by simp
qed

lemma ex_built42: "\<exists>p. build_luca_payload plain_host 0 rate18 order42 [] = Inr p"
  by (simp add: eval_mapper eval_py eval_text order42_def rate18_def plain_host_def Let_def)

text \<open>
  The instance of claim C7: no line items and a grand total of 42.00 give one line of
  quantity 1 and unit price 42.00.
\<close>

theorem no_line_items_fallback_witness:
  "\<exists>p l. build_luca_payload plain_host 0 rate18 order42 [] = Inr p
     \<and> Products p = [l] \<and> Quantity l = 1 \<and> UnitPrice l = 42 \<and> TotalLineExtensionAmount p = 42"
proof -
  obtain p where p: "build_luca_payload plain_host 0 rate18 order42 [] = Inr p"
    using ex_built42 by blast
  from no_line_items_fallback [of plain_host 0 rate18 order42 p] p obtain l where
    l: "Products p = [l]" "Quantity l = 1" "TotalLineExtensionAmount p = UnitPrice l"
    and unit: "money_to_float (py_or (dict_get order42 ''grandtotal'') (dict_get order42 ''total_price''))
                 = Inr (UnitPrice l)"
    by blast
  from unit have "UnitPrice l = 42"
    by (simp add: eval_py order42_def)
  with p l show ?thesis
    by auto
qed

subsection \<open>When the mapper completes\<close>


lemma is_price_py_or: "is_price a \<Longrightarrow> is_price b \<Longrightarrow> is_price (py_or a b)"
  by (simp add: py_or_def)

lemma is_money_price: "is_money v \<Longrightarrow> is_price v"
  by (simp add: is_price_def)

lemma is_number_float: "is_number v \<Longrightarrow> \<exists>x. py_float v = Inr x"
  by (cases v) (simp_all add: is_number_def py_float_def)

lemma is_price_money_to_float: "is_price v \<Longrightarrow> \<exists>x. money_to_float v = Inr x"
proof (cases v)
  case (JObj d)
  assume "is_price v"
  with JObj have "is_number (dict_get_default d ''amount'' (JInt 0))"
    and "is_number (dict_get_default d ''divisor'' (JInt 100))"
    by (simp_all add: is_price_def is_money_def is_number_def)
  then obtain a b where "py_float (dict_get_default d ''amount'' (JInt 0)) = Inr a"
    "py_float (dict_get_default d ''divisor'' (JInt 100)) = Inr b"
    by (blast dest: is_number_float)
  with JObj show ?thesis
    by (simp add: money_to_float_def)
qed (simp_all add: is_price_def is_money_def is_number_def money_to_float_def)

lemma make_line_completes:
  assumes "line_item_ok t" and "is_money (dict_get receipt ''total_price'')"
  shows "\<exists>l. make_line h kdv receipt t = Inr l"
proof -
  from assms obtain qty where q: "py_float (dict_get_default t ''quantity'' (JInt 1)) = Inr qty"
    by (auto simp: line_item_ok_def dest: is_number_float)
  from assms have "is_price (py_or (py_or (dict_get t ''price'') (dict_get t ''amount_paid''))
                                  (dict_get receipt ''total_price''))"
    by (simp add: line_item_ok_def is_price_py_or is_money_price)
  then obtain unit where "money_to_float (py_or (py_or (dict_get t ''price'') (dict_get t ''amount_paid''))
                                  (dict_get receipt ''total_price'')) = Inr unit"
    by (blast dest: is_price_money_to_float)
  with q show ?thesis
    by (simp add: make_line_def Let_def)
qed

lemma lines_loop_completes:
  assumes "list_all line_item_ok txs" and "is_money (dict_get receipt ''total_price'')"
  shows "\<exists>r. lines_loop h kdv receipt txs acc = Inr r"
  using assms(1)
proof (induction txs arbitrary: acc)
  case Nil
  then show ?case by simp
next
  case (Cons t txs)
  then have "line_item_ok t" and rest: "list_all line_item_ok txs"
    by simp_all
  from make_line_completes [OF this(1) assms(2)] obtain l where
    "make_line h kdv receipt t = Inr l"
    by blast
  with Cons.IH [OF rest] show ?case
    by (cases acc) simp
qed

lemma order_line_completes:
  assumes "is_money (dict_get receipt ''grandtotal'')" and "is_money (dict_get receipt ''total_price'')"
  shows "\<exists>r. order_line h kdv receipt = Inr r"
proof -
  from assms have "is_price (py_or (dict_get receipt ''grandtotal'') (dict_get receipt ''total_price''))"
    by (simp add: is_price_py_or is_money_price)
  then obtain g where "money_to_float (py_or (dict_get receipt ''grandtotal'')
                                            (dict_get receipt ''total_price'')) = Inr g"
    by (blast dest: is_price_money_to_float)
  then show ?thesis
    by (simp add: order_line_def Let_def)
qed

lemma is_money_currency: "is_money v \<Longrightarrow> \<exists>c. attr_get (py_or v (JObj [])) ''currency_code'' = Inr c"
  by (cases v) (simp_all add: is_money_def py_or_def attr_get_def)

lemma listed_currency_completes:
  assumes "is_money (dict_get receipt ''grandtotal'')" and "is_money (dict_get receipt ''total_price'')"
  shows "\<exists>c. listed_currency receipt = Inr c"
proof -
  from assms obtain c1 c2 where
    "attr_get (py_or (dict_get receipt ''grandtotal'') (JObj [])) ''currency_code'' = Inr c1"
    "attr_get (py_or (dict_get receipt ''total_price'') (JObj [])) ''currency_code'' = Inr c2"
    by (blast dest: is_money_currency)
  then show ?thesis
    by (simp add: listed_currency_def)
qed

lemma is_text_slice: "is_text a \<Longrightarrow> \<exists>s. slice_to n (py_or a (JStr [])) = Inr s"
  by (cases a) (simp_all add: is_text_def py_or_def slice_to_def)

lemma is_text_py_or: "is_text a \<Longrightarrow> is_text b \<Longrightarrow> is_text (py_or a b)"
  by (simp add: py_or_def)

lemma build_address_completes:
  assumes "is_text (dict_get receipt ''first_line'')" and "is_text (dict_get receipt ''city'')"
    and "is_text (dict_get receipt ''state'')"
  shows "\<exists>a. build_address receipt = Inr a"
proof -
  from assms obtain s1 s2 s3 where
    "slice_to 250 (py_or (dict_get receipt ''first_line'') (JStr [])) = Inr s1"
    "slice_to 60 (py_or (dict_get receipt ''city'') (JStr [])) = Inr s2"
    "slice_to 60 (py_or (py_or (dict_get receipt ''state'') (dict_get receipt ''city'')) (JStr [])) = Inr s3"
    using is_text_slice [of "dict_get receipt ''first_line''" 250]
      is_text_slice [of "dict_get receipt ''city''" 60]
      is_text_slice [of "py_or (dict_get receipt ''state'') (dict_get receipt ''city'')" 60]
    by (auto simp: is_text_py_or)
  then show ?thesis
    by (simp add: build_address_def Let_def)
qed

lemma is_text_strip: "is_text a \<Longrightarrow> \<exists>s. str_strip (py_or a (JStr d)) = Inr s"
  by (cases a) (simp_all add: is_text_def py_or_def str_strip_def)

lemma is_stamp_instant:
  assumes "is_stamp a" and "is_stamp b" and "is_stamp (JInt now)"
  shows "\<exists>ts dt. (if truthy (py_or a b) then py_int (py_or a b) else Inr now) = Inr ts
                \<and> utcfromtimestamp ts = Inr dt"
  using assms
  by (cases a; cases b) (simp_all add: is_stamp_def py_or_def py_int_def utcfromtimestamp_def)



section \<open>The stores\<close>

text \<open>
  Claim C2 fails on the code.  \<^verbatim>\<open>db_upsert_invoice\<close> on an existing record executes
  \<^verbatim>\<open>UPDATE invoices SET ettn=?, invoice_number=?, url=?, status=?, error=?\<close> with
  \<^verbatim>\<open>fields.get(...)\<close> for every column, so a column the caller did not provide is set
  to \<^verbatim>\<open>NULL\<close>.  For the record of order 7 (status CREATED, ETTN E-7, number INV-7)
  the call with only \<^verbatim>\<open>status\<close> and \<^verbatim>\<open>url\<close> loses the ETTN and the invoice
  number, and so does the action \<^verbatim>\<open>send_invoice\<close>, which makes exactly that call.
\<close>

theorem db_upsert_invoice_drops_unprovided:
  "db_upsert_invoice ''2024-01-02T09:00:00'' ''7''
       [''status'' \<mapsto> JStr ''SENT'', ''url'' \<mapsto> JStr ''https://doc.example/view''] invoiced_db
     = Inr (invoiced_db\<lparr> invoices := [''7'' \<mapsto>
         \<lparr> inv_receipt_id = ''7'', inv_ettn = JNull, inv_invoice_number = JNull,
           inv_url = JStr ''https://doc.example/view'', inv_status = JStr ''SENT'', inv_error = JNull,
           inv_created_at = ''2024-01-01T10:00:00'', inv_updated_at = ''2024-01-02T09:00:00'' \<rparr>] \<rparr>)
   \<and> inv_ettn created_invoice = JStr ''E-7''
   \<and> (\<exists>db w. send_invoice (demo_env []) ''7'' (invoiced_db, 0) = (None, db, w)
          \<and> map_option inv_ettn (invoices db ''7'') = Some JNull
          \<and> map_option inv_invoice_number (invoices db ''7'') = Some JNull
          \<and> map_option inv_status (invoices db ''7'') = Some (JStr ''SENT''))"
  by (simp add: eval_db invoiced_db_def empty_db_def created_invoice_def send_invoice_def demo_env_def)

text \<open>
  What \<^verbatim>\<open>db_upsert_invoice\<close> does to an existing record: each of the five columns
  \<^verbatim>\<open>ettn\<close>, \<^verbatim>\<open>invoice_number\<close>, \<^verbatim>\<open>url\<close>, \<^verbatim>\<open>status\<close> and \<^verbatim>\<open>error\<close> is set
  to the value the call gives for it, \<^verbatim>\<open>NULL\<close> when the call gives none;
  \<^verbatim>\<open>updated_at\<close> is set to the current time; \<^verbatim>\<open>receipt_id\<close> and \<^verbatim>\<open>created_at\<close>
  are kept, and so is every other record.
\<close>

theorem db_upsert_invoice_overwrites:
  "invoices db rid = Some row \<and> db_upsert_invoice now rid f db = Inr db' \<longrightarrow>
     (\<exists>ettn invno url status err.
        sql_bind (fields_get f ''ettn'') = Inr ettn
      \<and> sql_bind (fields_get f ''invoice_number'') = Inr invno
      \<and> sql_bind (fields_get f ''url'') = Inr url
      \<and> sql_bind (fields_get f ''status'') = Inr status
      \<and> sql_bind (fields_get f ''error'') = Inr err
      \<and> db' = db\<lparr>invoices := (invoices db)(rid \<mapsto>
                  row\<lparr> inv_ettn := ettn, inv_invoice_number := invno, inv_url := url,
                       inv_status := status, inv_error := err, inv_updated_at := now \<rparr>)\<rparr>)"
  unfolding db_upsert_invoice_def Let_def
  by (auto split: sum.splits)

text \<open>
  An instance: a record in status \<^verbatim>\<open>ERROR\<close> goes to \<^verbatim>\<open>CREATED\<close> on a later
  successful create, and its error text becomes \<^verbatim>\<open>NULL\<close>.
\<close>

theorem db_upsert_invoice_overwrites_witness:
  "invoices (empty_db\<lparr> invoices := [''7'' \<mapsto> failed_invoice] \<rparr>) ''7'' = Some failed_invoice
   \<and> (\<exists>db'. db_upsert_invoice ''2024-01-02T09:00:00'' ''7''
               [''status'' \<mapsto> JStr ''CREATED'', ''ettn'' \<mapsto> JStr ''E-7'',
                ''invoice_number'' \<mapsto> JStr ''INV-7'', ''url'' \<mapsto> JNull, ''error'' \<mapsto> JNull]
               (empty_db\<lparr> invoices := [''7'' \<mapsto> failed_invoice] \<rparr>) = Inr db'
         \<and> invoice_status db' ''7'' = Some (JStr ''CREATED'')
         \<and> invoice_error db' ''7'' = Some JNull)"
proof -
  let ?db = "empty_db\<lparr> invoices := [''7'' \<mapsto> failed_invoice] \<rparr>"
  let ?f = "[''status'' \<mapsto> JStr ''CREATED'', ''ettn'' \<mapsto> JStr ''E-7'',
             ''invoice_number'' \<mapsto> JStr ''INV-7'', ''url'' \<mapsto> JNull, ''error'' \<mapsto> JNull]"
  have row: "invoices ?db ''7'' = Some failed_invoice"
    by simp
  have "\<exists>db'. db_upsert_invoice ''2024-01-02T09:00:00'' ''7'' ?f ?db = Inr db'"
    by (simp add: eval_db)
  then obtain db' where up: "db_upsert_invoice ''2024-01-02T09:00:00'' ''7'' ?f ?db = Inr db'"
    by blast
  from db_upsert_invoice_overwrites [where db = ?db and rid = "''7''" and row = failed_invoice
      and now = "''2024-01-02T09:00:00''" and f = ?f and db' = db', THEN mp, OF conjI [OF row up]]
  obtain status err where "sql_bind (fields_get ?f ''status'') = Inr status"
    "sql_bind (fields_get ?f ''error'') = Inr err"
    "invoice_status db' ''7'' = Some status" "invoice_error db' ''7'' = Some err"
    by (auto simp: invoice_status_def invoice_error_def)
  then have "invoice_status db' ''7'' = Some (JStr ''CREATED'')" "invoice_error db' ''7'' = Some JNull"
    by (simp_all add: sql_bind_def fields_get_def)
  with row up show ?thesis
    by blast
qed

lemma order_values_fixed:
  "order_values h clock now rcpt db = Inr new \<Longrightarrow>
     ord_receipt_id new = py_str h (dict_get rcpt ''receipt_id'') \<and> ord_raw_json new = rcpt
     \<and> ord_created_at new = now \<and> ord_updated_at new = now"
  unfolding order_values_def Let_def
  by (auto split: sum.splits)



lemma db_upsert_invoice_frame:
  assumes "db_upsert_invoice now rid f db = Inr db'"
  shows "settings_tbl db' = settings_tbl db \<and> orders db' = orders db
         \<and> (\<forall>k. k \<noteq> rid \<longrightarrow> invoices db' k = invoices db k)"
  using assms unfolding db_upsert_invoice_def Let_def
  by (auto split: sum.splits)

lemma db_upsert_order_frame:
  assumes "db_upsert_order h clock now rc db = Inr db'"
  shows "settings_tbl db' = settings_tbl db \<and> invoices db' = invoices db"
  using assms unfolding db_upsert_order_def
  by (auto split: sum.splits)

lemma error_record:
  "\<exists>db2 row. db_upsert_invoice now rid [''status'' \<mapsto> JStr ''ERROR'', ''error'' \<mapsto> JStr m] db = Inr db2
      \<and> invoices db2 rid = Some row \<and> inv_status row = JStr ''ERROR'' \<and> inv_error row = JStr m"
  by (simp add: db_upsert_invoice_def fields_get_def sql_bind_def py_or_def Let_def split: option.splits)

section \<open>The sync cycle\<close>

lemma watermark_set [simp]:
  "watermark (db_set_setting ''last_sync_epoch'' (show_int i) db) = Some i"
  by (simp add: watermark_def db_set_setting_def db_get_setting_def)

lemma watermark_cong: "settings_tbl db' = settings_tbl db \<Longrightarrow> watermark db' = watermark db"
  by (simp add: watermark_def db_get_setting_def)

lemma shop_watermark: "watermark shop_db = Some 1700000000"
  by (simp add: watermark_def db_get_setting_def shop_db_def shop_settings_def eval_text)

lemma seed_watermark: "watermark empty_db = Some 0"
  by (simp add: watermark_def db_get_setting_def empty_db_def seed_settings_def eval_text)

lemma shop_auto:
  "lower (case settings_all shop_db ''auto_invoice'' of None \<Rightarrow> ''false'' | Some v \<Rightarrow> v) = ''true''"
  by (simp add: settings_all_def shop_db_def shop_settings_def lower_def lower_char_def)

lemma shop_settings_all: "settings_all shop_db = shop_settings"
  by (simp add: settings_all_def shop_db_def)

text \<open>
  Claim C4.  A cycle that starts with watermark \<open>W\<close> (the stored value, or now minus 24
  hours when the stored value is the sentinel 0) and fetches no order returns
  \<open>(0, 0, 0)\<close>; the store it leaves differs from the one it found in the setting
  \<^verbatim>\<open>last_sync_epoch\<close> only, which now reads \<open>W + 1\<close>; the tables of orders and invoices
  are as before; and the world is the one the fetch left, so no further remote call was
  made.
\<close>

theorem empty_cycle:
  "watermark db = Some stored
   \<and> etsy_refresh_access_token env (settings_all db) w = (Inr access, w1)
   \<and> etsy_receipts env (settings_all db) access
        (if stored = 0 then time_time env w - 86400 else stored) w1 = (Inr [], w2)
   \<longrightarrow>
     sync_orders_and_maybe_invoice h env (db, w) =
       (Inr (0, 0, 0),
        db\<lparr>settings_tbl := (settings_tbl db)
              (''last_sync_epoch'' \<mapsto> show_int ((if stored = 0 then time_time env w - 86400 else stored) + 1))\<rparr>,
        w2)
   \<and> watermark (fst (snd (sync_orders_and_maybe_invoice h env (db, w))))
        = Some ((if stored = 0 then time_time env w - 86400 else stored) + 1)
   \<and> orders (fst (snd (sync_orders_and_maybe_invoice h env (db, w)))) = orders db
   \<and> invoices (fst (snd (sync_orders_and_maybe_invoice h env (db, w)))) = invoices db"
proof (intro impI, elim conjE)
  let ?W = "if stored = 0 then time_time env w - 86400 else stored"
  assume wm: "watermark db = Some stored"
    and refresh: "etsy_refresh_access_token env (settings_all db) w = (Inr access, w1)"
    and fetch: "etsy_receipts env (settings_all db) access ?W w1 = (Inr [], w2)"
  have run: "sync_orders_and_maybe_invoice h env (db, w) =
          (Inr (0, 0, 0), db_set_setting ''last_sync_epoch'' (show_int (?W + 1)) db, w2)"
    using wm refresh fetch
    by (cases "stored = 0") (simp_all add: sync_orders_and_maybe_invoice_def watermark_def Let_def)
  show "sync_orders_and_maybe_invoice h env (db, w) =
       (Inr (0, 0, 0),
        db\<lparr>settings_tbl := (settings_tbl db)(''last_sync_epoch'' \<mapsto> show_int (?W + 1))\<rparr>, w2)
   \<and> watermark (fst (snd (sync_orders_and_maybe_invoice h env (db, w)))) = Some (?W + 1)
   \<and> orders (fst (snd (sync_orders_and_maybe_invoice h env (db, w)))) = orders db
   \<and> invoices (fst (snd (sync_orders_and_maybe_invoice h env (db, w)))) = invoices db"
    unfolding run by (simp add: db_set_setting_def watermark_def db_get_setting_def)
qed

text \<open>
  Claim C4 at watermark 1700000000 and an empty fetch, and at the sentinel 0 with the
  clock reading 1700000000.
\<close>

theorem empty_cycle_witness:
  "watermark shop_db = Some 1700000000
   \<and> sync_orders_and_maybe_invoice plain_host (demo_env []) (shop_db, 0) =
       (Inr (0, 0, 0),
        shop_db\<lparr>settings_tbl := (settings_tbl shop_db)(''last_sync_epoch'' \<mapsto> ''1700000001'')\<rparr>, 2)
   \<and> watermark (fst (snd (sync_orders_and_maybe_invoice plain_host (demo_env []) (shop_db, 0))))
       = Some 1700000001
   \<and> watermark empty_db = Some 0
   \<and> time_time (demo_env []) 0 = 1700000000
   \<and> sync_orders_and_maybe_invoice plain_host (demo_env []) (empty_db, 0) =
       (Inr (0, 0, 0),
        empty_db\<lparr>settings_tbl := (settings_tbl empty_db)(''last_sync_epoch'' \<mapsto> ''1699913601'')\<rparr>, 2)"
proof -
  have refresh: "etsy_refresh_access_token (demo_env []) (settings_all shop_db) 0 = (Inr (JStr ''access''), 1)"
    and fetch: "etsy_receipts (demo_env []) (settings_all shop_db) (JStr ''access'')
                  (if (1700000000::int) = 0 then time_time (demo_env []) 0 - 86400 else 1700000000) 1
                = (Inr [], 2)"
    and refresh0: "etsy_refresh_access_token (demo_env []) (settings_all empty_db) 0 = (Inr (JStr ''access''), 1)"
    and fetch0: "etsy_receipts (demo_env []) (settings_all empty_db) (JStr ''access'')
                  (if (0::int) = 0 then time_time (demo_env []) 0 - 86400 else 0) 1
                = (Inr [], 2)"
    and clock: "time_time (demo_env []) 0 = 1700000000"
    by (simp_all add: demo_env_def)
  have shown: "show_int 1700000001 = ''1700000001''" "show_int 1699913601 = ''1699913601''"
    by (simp_all add: show_int_def show_nat.simps digit_char_def)
  have next_mark: "(if (1700000000::int) = 0 then time_time (demo_env []) 0 - 86400 else 1700000000) + 1
                   = 1700000001"
    "(if (0::int) = 0 then time_time (demo_env []) 0 - 86400 else 0) + 1 = 1699913601"
    by (simp_all add: clock)
  note run = empty_cycle [where db = shop_db and stored = 1700000000 and env = "demo_env []" and w = 0
      and access = "JStr ''access''" and ?w1.0 = 1 and ?w2.0 = 2 and h = plain_host,
      THEN mp, OF conjI [OF shop_watermark conjI [OF refresh fetch]], unfolded next_mark shown]
  note run0 = empty_cycle [where db = empty_db and stored = 0 and env = "demo_env []" and w = 0
      and access = "JStr ''access''" and ?w1.0 = 1 and ?w2.0 = 2 and h = plain_host,
      THEN mp, OF conjI [OF seed_watermark conjI [OF refresh0 fetch0]], unfolded next_mark shown]
  from shop_watermark seed_watermark clock run run0 show ?thesis
    by blast
qed

text \<open>
  Claim C9.  When the marketplace token exchange raises \<open>e\<close>, and when auto-invoice is
  on, the fetch is not empty and the provider login raises \<open>e\<close>, the cycle raises \<open>e\<close>
  and leaves the store exactly as it found it: no order or invoice was written and the
  watermark is unchanged.
\<close>

theorem auth_failure_aborts:
  "(watermark db = Some stored
    \<and> etsy_refresh_access_token env (settings_all db) w = (Inl e, w1)
    \<longrightarrow> sync_orders_and_maybe_invoice h env (db, w) = (Inl e, db, w1))
   \<and> (watermark db = Some stored
    \<and> etsy_refresh_access_token env (settings_all db) w = (Inr access, w1)
    \<and> etsy_receipts env (settings_all db) access
         (if stored = 0 then time_time env w - 86400 else stored) w1 = (Inr receipts, w2)
    \<and> receipts \<noteq> []
    \<and> lower (case settings_all db ''auto_invoice'' of None \<Rightarrow> ''false'' | Some v \<Rightarrow> v) = ''true''
    \<and> luca_login env (settings_all db) w2 = (Inl e, w3)
    \<longrightarrow> sync_orders_and_maybe_invoice h env (db, w) = (Inl e, db, w3))"
  by (cases "stored = 0") (simp_all add: sync_orders_and_maybe_invoice_def watermark_def Let_def)

text \<open>
  Claim C9 at a world whose token exchange is refused, and at one whose login is
  refused.
\<close>

theorem auth_failure_aborts_witness:
  "watermark shop_db = Some 1700000000
   \<and> sync_orders_and_maybe_invoice plain_host no_access_env (shop_db, 0)
       = (Inl (RemoteError ''401 Unauthorized''), shop_db, 1)
   \<and> sync_orders_and_maybe_invoice plain_host no_login_env (shop_db, 0)
       = (Inl (RemoteError ''401 Unauthorized''), shop_db, 3)"
proof -
  let ?e = "RemoteError ''401 Unauthorized''"
  have refused: "etsy_refresh_access_token no_access_env (settings_all shop_db) 0 = (Inl ?e, 1)"
    by (simp add: no_access_env_def)
  have refresh: "etsy_refresh_access_token no_login_env (settings_all shop_db) 0 = (Inr (JStr ''access''), 1)"
    and fetch: "etsy_receipts no_login_env (settings_all shop_db) (JStr ''access'')
                  (if (1700000000::int) = 0 then time_time no_login_env 0 - 86400 else 1700000000) 1
                = (Inr three_orders, 2)"
    and ne: "three_orders \<noteq> []"
    and login: "luca_login no_login_env (settings_all shop_db) 2 = (Inl ?e, 3)"
    by (simp_all add: no_login_env_def demo_env_def three_orders_def)
  from auth_failure_aborts [where db = shop_db and stored = 1700000000 and env = no_access_env
      and w = 0 and e = ?e and ?w1.0 = 1 and h = plain_host, THEN conjunct1]
    shop_watermark refused
  have one: "sync_orders_and_maybe_invoice plain_host no_access_env (shop_db, 0) = (Inl ?e, shop_db, 1)"
    by blast
  from auth_failure_aborts [where db = shop_db and stored = 1700000000 and env = no_login_env
      and w = 0 and e = ?e and ?w1.0 = 1 and h = plain_host and access = "JStr ''access''"
      and receipts = three_orders and ?w2.0 = 2 and ?w3.0 = 3, THEN conjunct2]
    shop_watermark refresh fetch ne shop_auto login
  have two: "sync_orders_and_maybe_invoice plain_host no_login_env (shop_db, 0) = (Inl ?e, shop_db, 3)"
    by blast
  from shop_watermark one two show ?thesis
    by blast
qed

subsection \<open>One round of the loop\<close>

lemma order_body_frame:
  assumes "order_body h env st access token auto_invoice rc rid (db, w, n) = (x, db', w', n')"
  shows "settings_tbl db' = settings_tbl db \<and> (\<forall>k. k \<noteq> rid \<longrightarrow> invoices db' k = invoices db k)"
  using assms unfolding order_body_def Let_def
  by (auto split: sum.splits prod.splits if_splits
           dest!: db_upsert_invoice_frame db_upsert_order_frame)

lemma order_step_passed:
  assumes "order_updated env rc (world c) = Inr u"
    and "order_body h env st access token auto_invoice rc (py_str h (dict_get rc ''receipt_id''))
           (store c, world c, created c) = (None, db, w, n)"
  shows "order_step h env st access token auto_invoice rc c =
           (None, c\<lparr>store := db, world := w, max_updated := max (max_updated c) u, created := n\<rparr>)"
  using assms by (simp add: order_step_def Let_def max_def)

lemma order_step_caught:
  assumes "order_updated env rc (world c) = Inr u"
    and "order_body h env st access token auto_invoice rc (py_str h (dict_get rc ''receipt_id''))
           (store c, world c, created c) = (Some e, db, w, n)"
  shows "\<exists>db2 row. db_upsert_invoice (now_iso env w) (py_str h (dict_get rc ''receipt_id''))
                      [''status'' \<mapsto> JStr ''ERROR'', ''error'' \<mapsto> JStr (exc_text h e)] db = Inr db2
           \<and> invoices db2 (py_str h (dict_get rc ''receipt_id'')) = Some row
           \<and> inv_status row = JStr ''ERROR'' \<and> inv_error row = JStr (exc_text h e)
           \<and> order_step h env st access token auto_invoice rc c =
               (None, c\<lparr>store := db2, world := w, max_updated := max (max_updated c) u,
                         created := n, errs := errs c + 1\<rparr>)"
proof -
  from error_record [of "now_iso env w" "py_str h (dict_get rc ''receipt_id'')" "exc_text h e" db]
  obtain db2 row where
    "db_upsert_invoice (now_iso env w) (py_str h (dict_get rc ''receipt_id''))
        [''status'' \<mapsto> JStr ''ERROR'', ''error'' \<mapsto> JStr (exc_text h e)] db = Inr db2"
    "invoices db2 (py_str h (dict_get rc ''receipt_id'')) = Some row"
    "inv_status row = JStr ''ERROR''" "inv_error row = JStr (exc_text h e)"
    by blast
  with assms show ?thesis
    by (simp add: order_step_def Let_def max_def)
qed

lemma order_step_result:
  assumes "order_updated env rc (world c) = Inr u"
  shows "\<exists>c'. order_step h env st access token auto_invoice rc c = (None, c')
           \<and> max_updated c' = max (max_updated c) u
           \<and> settings_tbl (store c') = settings_tbl (store c)
           \<and> (\<forall>k. k \<noteq> py_str h (dict_get rc ''receipt_id'') \<longrightarrow>
                  invoices (store c') k = invoices (store c) k)
           \<and> errs c \<le> errs c'"
proof -
  obtain x db w n where body:
    "order_body h env st access token auto_invoice rc (py_str h (dict_get rc ''receipt_id''))
       (store c, world c, created c) = (x, db, w, n)"
    by (metis prod_cases4)
  note frame = order_body_frame [OF body]
  show ?thesis
  proof (cases x)
    case None
    with order_step_passed [OF assms] body frame show ?thesis
      by simp
  next
    case (Some e)
    with order_step_caught [OF assms] body obtain db2 where
      up: "db_upsert_invoice (now_iso env w) (py_str h (dict_get rc ''receipt_id''))
             [''status'' \<mapsto> JStr ''ERROR'', ''error'' \<mapsto> JStr (exc_text h e)] db = Inr db2"
      and step: "order_step h env st access token auto_invoice rc c =
               (None, c\<lparr>store := db2, world := w, max_updated := max (max_updated c) u,
                         created := n, errs := errs c + 1\<rparr>)"
      by blast
    from db_upsert_invoice_frame [OF up] frame step show ?thesis
      by simp
  qed
qed

lemma order_step_mono:
  assumes "order_step h env st access token auto_invoice rc c = (x, c')"
  shows "settings_tbl (store c') = settings_tbl (store c) \<and> max_updated c \<le> max_updated c'"
proof (cases "order_updated env rc (world c)")
  case (Inl e)
  with assms show ?thesis
    by (simp add: order_step_def Let_def)
next
  case (Inr u)
  from order_step_result [OF Inr, of h st access token auto_invoice] assms show ?thesis
    by auto
qed

lemma sync_loop_mono:
  "sync_loop h env st access token auto_invoice receipts c = (x, c') \<Longrightarrow>
     settings_tbl (store c') = settings_tbl (store c) \<and> max_updated c \<le> max_updated c'"
proof (induction receipts arbitrary: c)
  case Nil
  then show ?case by simp
next
  case (Cons rc receipts)
  obtain y c1 where step: "order_step h env st access token auto_invoice rc c = (y, c1)"
    by (metis surj_pair)
  note m = order_step_mono [OF step]
  show ?case
  proof (cases y)
    case None
    with Cons.prems step have "sync_loop h env st access token auto_invoice receipts c1 = (x, c')"
      by simp
    from Cons.IH [OF this] m show ?thesis
      by simp
  next
    case (Some e)
    with Cons.prems step m show ?thesis
      by simp
  qed
qed

lemma sync_loop_max:
  "list_all2 (\<lambda>rc u. \<forall>w. order_updated env rc w = Inr u) receipts us \<Longrightarrow>
     \<exists>c'. sync_loop h env st access token auto_invoice receipts c = (None, c')
        \<and> max_updated c' = fold max us (max_updated c)"
proof (induction receipts us arbitrary: c rule: list_all2_induct)
  case Nil
  then show ?case by simp
next
  case (Cons rc receipts u us)
  from Cons.hyps(1) have "order_updated env rc (world c) = Inr u"
    by simp
  from order_step_result [OF this, of h st access token auto_invoice] obtain c1 where
    step: "order_step h env st access token auto_invoice rc c = (None, c1)"
    and mx: "max_updated c1 = max (max_updated c) u"
    by blast
  from Cons.IH [of c1] obtain c' where
    "sync_loop h env st access token auto_invoice receipts c1 = (None, c')"
    "max_updated c' = fold max us (max_updated c1)"
    by blast
  with step mx show ?case
    by (simp add: max.commute)
qed

lemma fold_max_Max:
  assumes "us \<noteq> []" and "\<forall>u \<in> set us. (m::int) \<le> u"
  shows "fold max us m = Max (set us)"
proof -
  have "fold max us m = Max (set (m # us))"
    by (rule Max.set_eq_fold [symmetric])
  also have "\<dots> = max m (Max (set us))"
    using assms by simp
  also have "\<dots> = Max (set us)"
  proof -
    from assms obtain u where "u \<in> set us" by (cases us) auto
    with assms have "m \<le> Max (set us)"
      by (meson List.finite_set Max_ge order_trans)
    then show ?thesis by simp
  qed
  finally show ?thesis .
qed

subsection \<open>The watermark\<close>

lemma cycle_watermark:
  assumes wm: "watermark db = Some a" and clock: "0 < a \<or> (\<forall>w. 86400 \<le> time_time env w)"
  shows "\<exists>b. watermark (fst (snd (sync_orders_and_maybe_invoice h env (db, w)))) = Some b \<and> a \<le> b"
proof -
  let ?W = "if a = 0 then time_time env w - 24 * 3600 else a"
  have W: "a \<le> ?W + 1"
  proof (cases "a = 0")
    case True
    with clock have "86400 \<le> time_time env w"
      by simp
    with True show ?thesis
      by simp
  next
    case False
    then show ?thesis
      by simp
  qed
  obtain r1 w1 where refresh: "etsy_refresh_access_token env (settings_all db) w = (r1, w1)"
    by (metis surj_pair)
  obtain r2 w2 where fetch: "etsy_receipts env (settings_all db) (case r1 of Inr t \<Rightarrow> t | Inl e \<Rightarrow> JNull) ?W w1 = (r2, w2)"
    by (metis surj_pair)
  let ?auto = "lower (case settings_all db ''auto_invoice'' of None \<Rightarrow> ''false'' | Some v \<Rightarrow> v) = ''true''"
  obtain r3 w3 where login: "(if ?auto then luca_login env (settings_all db) w2 else (Inr JNull, w2)) = (r3, w3)"
    by (metis surj_pair)
  show ?thesis
  proof (cases r1)
    case (Inl e)
    with wm refresh show ?thesis
      by (simp add: sync_orders_and_maybe_invoice_def watermark_def Let_def)
  next
    case access: (Inr access)
    show ?thesis
    proof (cases r2)
      case (Inl e)
      with wm refresh fetch access show ?thesis
        by (simp add: sync_orders_and_maybe_invoice_def watermark_def Let_def)
    next
      case receipts: (Inr receipts)
      show ?thesis
      proof (cases "receipts = []")
        case True
        with wm refresh fetch access receipts W show ?thesis
          by (simp add: sync_orders_and_maybe_invoice_def watermark_def [of db] Let_def)
      next
        case False
        show ?thesis
        proof (cases r3)
          case (Inl e)
          with wm refresh fetch access receipts False login show ?thesis
            by (simp add: sync_orders_and_maybe_invoice_def watermark_def Let_def)
        next
          case token: (Inr token)
          obtain x c where loop: "sync_loop h env (settings_all db) access token ?auto receipts
                \<lparr> store = db, world = w3, max_updated = ?W, created = 0, errs = 0 \<rparr> = (x, c)"
            by (metis surj_pair)
          from sync_loop_mono [OF loop] have same: "settings_tbl (store c) = settings_tbl db"
            and mx: "?W \<le> max_updated c"
            by simp_all
          from wm refresh fetch access receipts False login token loop
          have run: "sync_orders_and_maybe_invoice h env (db, w) =
             (case x of Some e \<Rightarrow> (Inl e, store c, world c)
              | None \<Rightarrow> (Inr (length receipts, created c, errs c),
                   db_set_setting ''last_sync_epoch'' (show_int (max_updated c + 1)) (store c),
                   world c))"
            by (simp add: sync_orders_and_maybe_invoice_def watermark_def [of db] Let_def)
          show ?thesis
          proof (cases x)
            case None
            with run W mx show ?thesis
              by simp
          next
            case (Some e)
            with run wm watermark_cong [OF same] show ?thesis
              by simp
          qed
        qed
      qed
    qed
  qed
qed

lemma cycles_add: "cycles h env (n + k) s = cycles h env k (cycles h env n s)"
  by (induction n arbitrary: s) simp_all

lemma cycles_watermark:
  "watermark (fst s) = Some a \<Longrightarrow> 0 < a \<or> (\<forall>w. 86400 \<le> time_time env w) \<Longrightarrow>
     \<exists>b. watermark (fst (cycles h env n s)) = Some b \<and> a \<le> b"
proof (induction n arbitrary: s a)
  case 0
  then show ?case by simp
next
  case (Suc n)
  obtain db w where s: "s = (db, w)"
    by (cases s)
  with Suc.prems cycle_watermark [of db a env h w] obtain b where
    b: "watermark (fst (snd (sync_orders_and_maybe_invoice h env s))) = Some b" "a \<le> b"
    by auto
  with Suc.prems(2) have "0 < b \<or> (\<forall>w. 86400 \<le> time_time env w)"
    by auto
  from Suc.IH [OF b(1) this] b(2) show ?case
    by auto
qed

lemma sample_ids:
  "order_id plain_host (sample_order 1 t) = ''1''" "order_id plain_host (sample_order 2 t) = ''2''"
  "order_id plain_host (sample_order 3 t) = ''3''"
  by (simp_all add: order_id_def sample_order_def dict_get_def show_int_def show_nat.simps digit_char_def)

lemma sample_heads: "t \<noteq> 0 \<Longrightarrow> order_updated (demo_env b) (sample_order i t) w = Inr t"
  by (simp add: order_updated_def sample_order_def eval_py)

text \<open>
  Claim C1.  The watermark is the integer read from the setting \<^verbatim>\<open>last_sync_epoch\<close>.
  First part: along any run of cycles the watermark never decreases (after \<open>n\<close> cycles it
  is at least its starting value, after \<open>n + k\<close> cycles at least its value after \<open>n\<close>),
  whatever the remote services answer and whether cycles complete or abort.  This holds
  from any positive watermark; from the sentinel 0 it holds when the clock reads a time
  after 2 January 1970, which the sentinel rule \<^verbatim>\<open>int(time.time()) - 24*3600\<close> needs.  Second part: a cycle that starts with watermark
  \<open>W\<close> (the stored value, or now minus 24 hours when the stored value is the sentinel 0)
  and fetches a non-empty batch whose orders have the update times \<open>us\<close>, all at least
  \<open>W\<close>, returns normally and stores the watermark \<open>Max (set us) + 1\<close>, for any number
  \<open>e\<close> of per-order errors; when auto-invoice is on, the provider login is assumed to
  succeed (claim C9 covers its failure).
\<close>

theorem watermark_progress:
  "(watermark (fst s) = Some a \<and> (0 < a \<or> (\<forall>w. 86400 \<le> time_time env w))
      \<longrightarrow> (\<exists>b c. watermark (fst (cycles h env n s)) = Some b
                \<and> watermark (fst (cycles h env (n + k) s)) = Some c \<and> a \<le> b \<and> b \<le> c))
   \<and> (watermark db = Some stored
       \<and> etsy_refresh_access_token env (settings_all db) w = (Inr access, w1)
       \<and> etsy_receipts env (settings_all db) access
            (if stored = 0 then time_time env w - 86400 else stored) w1 = (Inr receipts, w2)
       \<and> receipts \<noteq> []
       \<and> list_all2 (\<lambda>rc u. \<forall>w. order_updated env rc w = Inr u) receipts us
       \<and> (\<forall>u \<in> set us. (if stored = 0 then time_time env w - 86400 else stored) \<le> u)
       \<and> (lower (case settings_all db ''auto_invoice'' of None \<Rightarrow> ''false'' | Some v \<Rightarrow> v) = ''true''
            \<longrightarrow> (\<exists>token. fst (luca_login env (settings_all db) w2) = Inr token))
      \<longrightarrow> (\<exists>n e db' w'. sync_orders_and_maybe_invoice h env (db, w)
                             = (Inr (length receipts, n, e), db', w')
             \<and> watermark db' = Some (Max (set us) + 1)))"
proof (intro conjI impI; elim conjE)
  assume wm: "watermark (fst s) = Some a" and clock: "0 < a \<or> (\<forall>w. 86400 \<le> time_time env w)"
  from cycles_watermark [OF wm clock, of h n] obtain b where
    b: "watermark (fst (cycles h env n s)) = Some b" "a \<le> b"
    by blast
  with clock have "0 < b \<or> (\<forall>w. 86400 \<le> time_time env w)"
    by auto
  from cycles_watermark [OF b(1) this, of h k] obtain c where
    "watermark (fst (cycles h env k (cycles h env n s))) = Some c" "b \<le> c"
    by blast
  with b show "\<exists>b c. watermark (fst (cycles h env n s)) = Some b
                \<and> watermark (fst (cycles h env (n + k) s)) = Some c \<and> a \<le> b \<and> b \<le> c"
    by (auto simp: cycles_add)
next
  let ?W = "if stored = 0 then time_time env w - 86400 else stored"
  let ?auto = "lower (case settings_all db ''auto_invoice'' of None \<Rightarrow> ''false'' | Some v \<Rightarrow> v) = ''true''"
  assume wm: "watermark db = Some stored"
    and refresh: "etsy_refresh_access_token env (settings_all db) w = (Inr access, w1)"
    and fetch: "etsy_receipts env (settings_all db) access ?W w1 = (Inr receipts, w2)"
    and ne: "receipts \<noteq> []"
    and times: "list_all2 (\<lambda>rc u. \<forall>w. order_updated env rc w = Inr u) receipts us"
    and later: "\<forall>u \<in> set us. ?W \<le> u"
    and login: "?auto \<longrightarrow> (\<exists>token. fst (luca_login env (settings_all db) w2) = Inr token)"
  from login obtain token w3 where
    tok: "(if ?auto then luca_login env (settings_all db) w2 else (Inr JNull, w2)) = (Inr token, w3)"
    by (cases ?auto) (auto simp: fst_def split: prod.splits)
  from sync_loop_max [OF times, of h "settings_all db" access token ?auto
      "\<lparr> store = db, world = w3, max_updated = ?W, created = 0, errs = 0 \<rparr>"]
  obtain c where loop: "sync_loop h env (settings_all db) access token ?auto receipts
          \<lparr> store = db, world = w3, max_updated = ?W, created = 0, errs = 0 \<rparr> = (None, c)"
    and mx: "max_updated c = fold max us ?W"
    by auto
  from times ne have "us \<noteq> []"
    by (auto simp: list_all2_Cons1 neq_Nil_conv)
  from fold_max_Max [OF this later] mx have T: "max_updated c = Max (set us)"
    by simp
  have "sync_orders_and_maybe_invoice h env (db, w) =
          (Inr (length receipts, created c, errs c),
           db_set_setting ''last_sync_epoch'' (show_int (max_updated c + 1)) (store c), world c)"
    using wm refresh fetch ne tok loop
    by (cases "stored = 0") (simp_all add: sync_orders_and_maybe_invoice_def watermark_def [of db] Let_def)
  with T show "\<exists>n e db' w'. sync_orders_and_maybe_invoice h env (db, w)
                             = (Inr (length receipts, n, e), db', w')
             \<and> watermark db' = Some (Max (set us) + 1)"
    by simp
qed

text \<open>
  Claim C1 at a batch of three orders with update times 1700000100, 1700000300 and
  1700000200, fetched with watermark 1700000000: the watermark becomes 1700000301.
\<close>

theorem watermark_progress_witness:
  "watermark shop_db = Some 1700000000
   \<and> (\<forall>w. 86400 \<le> time_time (demo_env three_orders) w)
   \<and> (\<exists>b c. watermark (fst (cycles plain_host (demo_env three_orders) 1 (shop_db, 0))) = Some b
          \<and> watermark (fst (cycles plain_host (demo_env three_orders) (1 + 1) (shop_db, 0))) = Some c
          \<and> 1700000000 \<le> b \<and> b \<le> c)
   \<and> (\<exists>n e db' w'. sync_orders_and_maybe_invoice plain_host (demo_env three_orders) (shop_db, 0)
                       = (Inr (3, n, e), db', w')
          \<and> watermark db' = Some 1700000301)"
proof -
  let ?env = "demo_env three_orders"
  let ?us = "[1700000100, 1700000300, 1700000200 :: int]"
  have clock: "\<forall>w. 86400 \<le> time_time ?env w"
    by (simp add: demo_env_def)
  have refresh: "etsy_refresh_access_token ?env (settings_all shop_db) 0 = (Inr (JStr ''access''), 1)"
    and fetch: "etsy_receipts ?env (settings_all shop_db) (JStr ''access'')
                  (if (1700000000::int) = 0 then time_time ?env 0 - 86400 else 1700000000) 1
                = (Inr three_orders, 2)"
    and ne: "three_orders \<noteq> []"
    and login: "lower (case settings_all shop_db ''auto_invoice'' of None \<Rightarrow> ''false'' | Some v \<Rightarrow> v) = ''true''
                \<longrightarrow> (\<exists>token. fst (luca_login ?env (settings_all shop_db) 2) = Inr token)"
    by (simp_all add: demo_env_def three_orders_def)
  have times: "list_all2 (\<lambda>rc u. \<forall>w. order_updated ?env rc w = Inr u) three_orders ?us"
    by (simp add: three_orders_def sample_heads)
  have later: "\<forall>u \<in> set ?us. (if (1700000000::int) = 0 then time_time ?env 0 - 86400 else 1700000000) \<le> u"
    by simp
  note progress = watermark_progress [where s = "(shop_db, 0)" and a = 1700000000 and env = ?env
      and h = plain_host and n = 1 and k = 1 and db = shop_db and stored = 1700000000 and w = 0
      and access = "JStr ''access''" and ?w1.0 = 1 and receipts = three_orders and ?w2.0 = 2
      and us = ?us]
  have seq: "\<exists>b c. watermark (fst (cycles plain_host ?env 1 (shop_db, 0))) = Some b
          \<and> watermark (fst (cycles plain_host ?env (1 + 1) (shop_db, 0))) = Some c
          \<and> 1700000000 \<le> b \<and> b \<le> c"
    by (rule progress [THEN conjunct1, THEN mp]) (simp add: shop_watermark clock)
  have "\<exists>n e db' w'. sync_orders_and_maybe_invoice plain_host ?env (shop_db, 0)
                       = (Inr (length three_orders, n, e), db', w')
          \<and> watermark db' = Some (Max (set ?us) + 1)"
    by (rule progress [THEN conjunct2, THEN mp])
       (intro conjI shop_watermark refresh fetch ne times later login)
  moreover have "length three_orders = 3" and "Max (set ?us) + 1 = 1700000301"
    by (simp_all add: three_orders_def)
  ultimately have one: "\<exists>n e db' w'. sync_orders_and_maybe_invoice plain_host ?env (shop_db, 0)
                       = (Inr (3, n, e), db', w')
          \<and> watermark db' = Some 1700000301"
    by (simp only:)
  from shop_watermark clock seq one show ?thesis
    by blast
qed

subsection \<open>Failures of single orders\<close>

lemma sample_good:
  "(i = 1 \<and> t = 1700000100) \<or> (i = 3 \<and> t = 1700000200) \<Longrightarrow> \<exists>db' w' n'.
     order_body plain_host (demo_env b) shop_settings (JStr ''access'') (JStr ''token'') True
        (sample_order i t) (order_id plain_host (sample_order i t)) (db, w, n)
       = (None, db', w', n')
     \<and> invoice_status db' (order_id plain_host (sample_order i t)) = Some (JStr ''SENT'')"
  by (elim disjE conjE)
     (simp_all add: eval_sync eval_sample eval_db eval_mapper eval_py eval_text invoice_status_def Let_def
                split: option.splits)

lemma sample_bad:
  "\<exists>db' w' n'.
     order_body plain_host (demo_env b) shop_settings (JStr ''access'') (JStr ''token'') True
        (sample_order 2 1700000300) (order_id plain_host (sample_order 2 1700000300)) (db, w, n)
       = (Some (RemoteError ''500 Server Error''), db', w', n')"
  by (simp add: eval_sync eval_sample eval_db eval_mapper eval_py eval_text Let_def
           split: option.splits)



end
